theory Spec2Isabelle
  imports Main
begin

section \<open>JavaScript values\<close>

text \<open>
  A JavaScript string is a sequence of UTF-16 code units. A code unit is modelled by its
  number; no arithmetic is done on code units, so no wrap-around arises.
  \<open>ustr\<close> turns an ASCII literal into such a string.
\<close>

type_synonym jschar = nat
type_synonym jsstring = "jschar list"

definition ustr :: "string \<Rightarrow> jsstring" where
  "ustr s = map of_char s"

text \<open>
  The values \<open>express.json()\<close> can put into \<open>req.body\<close>: the results of \<open>JSON.parse\<close>.
  An object keeps its members in source order (a later duplicate key wins on lookup).
  \<open>JNum n\<close> is the integer-valued number \<open>n\<close> with \<open>|n| < 2^53\<close>: there every integer
  is a double of its own, and \<open>String\<close> prints its decimal digits. \<open>JReal t\<close> is any other
  number \<open>JSON.parse\<close> yields (a fraction, a magnitude from \<open>2^53\<close> on): it is not zero,
  hence truthy, and it is known only by the text \<open>t\<close> that \<open>String\<close> gives it, since that
  text is the shortest one that reads back as the same double.
  \<open>undefined\<close> is \<open>None\<close> of \<open>json option\<close>.
\<close>

datatype json =
    JNull
  | JBool bool
  | JNum int
  | JReal jsstring
  | JStr jsstring
  | JArr "json list"
  | JObj "(jsstring \<times> json) list"

datatype js_error = TypeError | Rejected jsstring

text \<open>Truthiness, as \<open>if (x)\<close>, \<open>!x\<close> and \<open>x || y\<close> test it.\<close>

fun truthy :: "json \<Rightarrow> bool" where
  "truthy JNull = False"
| "truthy (JBool b) = b"
| "truthy (JNum n) = (n \<noteq> 0)"
| "truthy (JReal t) = True"
| "truthy (JStr s) = (s \<noteq> [])"
| "truthy (JArr xs) = True"
| "truthy (JObj kvs) = True"

definition truthy_opt :: "json option \<Rightarrow> bool" where
  "truthy_opt x = (case x of None \<Rightarrow> False | Some v \<Rightarrow> truthy v)"

text \<open>\<open>x || ''\<close>\<close>

definition or_empty :: "json option \<Rightarrow> json" where
  "or_empty x = (case x of None \<Rightarrow> JStr [] | Some v \<Rightarrow> if truthy v then v else JStr [])"

text \<open>Decimal rendering of an integer-valued number below \<open>2^53\<close> in magnitude.\<close>

fun digits :: "nat \<Rightarrow> jsstring" where
  "digits n = (if n < 10 then [48 + n] else digits (n div 10) @ [48 + n mod 10])"

declare digits.simps [simp del]

definition number_to_string :: "int \<Rightarrow> jsstring" where
  "number_to_string i = (if i < 0 then 45 # digits (nat (- i)) else digits (nat i))"

text \<open>
  \<open>String(v)\<close>. For an object, \<open>ToPrimitive\<close> looks up \<open>toString\<close> and then \<open>valueOf\<close>:
  a plain object answers \<open>[object Object]\<close> through \<open>Object.prototype.toString\<close>, but an own
  member named \<open>toString\<close> shadows that method with a JSON value, which is not callable;
  \<open>valueOf\<close> (own and not callable, or inherited and returning the object itself) yields
  no primitive either, and the conversion throws a \<open>TypeError\<close>.
  For an array, \<open>Array.prototype.join\<close> renders \<open>null\<close> as the empty string and converts
  every other element, left to right.
\<close>

fun js_String :: "json \<Rightarrow> js_error + jsstring"
  and join :: "json list \<Rightarrow> js_error + jsstring" where
  "js_String JNull = Inr (ustr ''null'')"
| "js_String (JBool b) = Inr (if b then ustr ''true'' else ustr ''false'')"
| "js_String (JNum n) = Inr (number_to_string n)"
| "js_String (JReal t) = Inr t"
| "js_String (JStr s) = Inr s"
| "js_String (JArr xs) = join xs"
| "js_String (JObj kvs) =
     (if ustr ''toString'' \<in> fst ` set kvs then Inl TypeError
      else Inr (ustr ''[object Object]''))"
| "join [] = Inr []"
| "join (x # xs) =
     (case (if x = JNull then Inr [] else js_String x) of
        Inl e \<Rightarrow> Inl e
      | Inr s \<Rightarrow>
          (if xs = [] then Inr s
           else case join xs of Inl e \<Rightarrow> Inl e | Inr t \<Rightarrow> Inr (s @ ustr '','' @ t)))"

text \<open>
  White space as \<open>String.prototype.trim\<close> strips it and as \<open>\s\<close> matches it:
  the WhiteSpace and LineTerminator code points.
\<close>

definition is_space :: "jschar \<Rightarrow> bool" where
  "is_space c \<longleftrightarrow>
     c = 0x09 \<or> c = 0x0A \<or> c = 0x0B \<or> c = 0x0C \<or> c = 0x0D \<or> c = 0x20 \<or> c = 0xA0 \<or>
     c = 0x1680 \<or> (0x2000 \<le> c \<and> c \<le> 0x200A) \<or> c = 0x2028 \<or> c = 0x2029 \<or>
     c = 0x202F \<or> c = 0x205F \<or> c = 0x3000 \<or> c = 0xFEFF"

definition trim :: "jsstring \<Rightarrow> jsstring" where
  "trim s = rev (dropWhile is_space (rev (dropWhile is_space s)))"

section \<open>The regular expression of the e-mail check\<close>

text \<open>
  \<open>/^[^\s@]+@[^\s@]+\.[^\s@]+$/\<close> is a sequence of atoms, each a character class taken
  once or taken one or more times (\<open>+\<close>). \<open>rx_test\<close> is \<open>RegExp.prototype.test\<close> for such
  a sequence anchored at both ends: it tries every way of splitting the input.
\<close>

datatype atom = One "jschar \<Rightarrow> bool" | Many "jschar \<Rightarrow> bool"

fun rx_test :: "atom list \<Rightarrow> jsstring \<Rightarrow> bool" where
  "rx_test [] s = (s = [])"
| "rx_test (One p # r) [] = False"
| "rx_test (One p # r) (c # s) = (p c \<and> rx_test r s)"
| "rx_test (Many p # r) [] = False"
| "rx_test (Many p # r) (c # s) = (p c \<and> (rx_test (Many p # r) s \<or> rx_test r s))"

text \<open>\<open>[^\s@]\<close>, \<open>@\<close> and \<open>\.\<close>\<close>

definition not_space_at :: "jschar \<Rightarrow> bool" where
  "not_space_at c \<longleftrightarrow> \<not> is_space c \<and> c \<noteq> 0x40"

definition is_at :: "jschar \<Rightarrow> bool" where
  "is_at c \<longleftrightarrow> c = 0x40"

definition is_dot :: "jschar \<Rightarrow> bool" where
  "is_dot c \<longleftrightarrow> c = 0x2E"

definition email_rx :: "atom list" where
  "email_rx = [Many not_space_at, One is_at, Many not_space_at, One is_dot, Many not_space_at]"

definition emailOk :: "jsstring \<Rightarrow> bool" where
  "emailOk s = rx_test email_rx s"

section \<open>Requests, responses and collaborators\<close>

record request =
  body :: "json option"
  x_forwarded_for :: "jsstring option"
  remoteAddress :: "jsstring option"
  req_ip :: "jsstring option"

record response =
  status :: nat
  payload :: json

text \<open>
  \<open>const { name, ... } = req.body || {}\<close>: a falsy body is replaced by the empty object,
  and every other value that is not an object with that member (an array, a string, a
  number) has no such property either.
\<close>

definition field :: "json option \<Rightarrow> string \<Rightarrow> json option" where
  "field b k = (case b of Some (JObj kvs) \<Rightarrow> map_of (rev kvs) (ustr k) | _ \<Rightarrow> None)"

record cleaned =
  name :: jsstring
  email :: jsstring
  message :: jsstring
  ip :: "jsstring option"

text \<open>The object given to \<open>new Contact(...)\<close> in the first server of \<open>part_001\<close>.\<close>

record raw_contact =
  raw_name :: "json option"
  raw_email :: "json option"
  raw_message :: "json option"
  raw_ip :: "jsstring option"
  createdAt :: nat

text \<open>A document of the \<open>Contact\<close> model; \<open>doc_id\<close> is its \<open>_id\<close>.\<close>

record contact_doc =
  doc_id :: jsstring
  doc_name :: "jsstring option"
  doc_email :: "jsstring option"
  doc_message :: "jsstring option"
  doc_ip :: "jsstring option"

record mail =
  mail_from :: jsstring
  mail_to :: jsstring
  subject :: jsstring
  replyTo :: "jsstring option"
  html :: jsstring

record mail_info =
  messageId :: jsstring
  accepted :: "jsstring list option"

text \<open>
  The collaborators are libraries outside the repository; what they answer is a parameter.
  \<open>create\<close> is \<open>Contact.create\<close>, \<open>construct\<close> is \<open>new Contact\<close>, \<open>save\<close> is \<open>doc.save\<close>;
  a transport is the \<open>sendMail\<close> of a \<open>transporter\<close>. \<open>Inl\<close> is a thrown error or a
  rejected promise.
\<close>

record contact_model =
  create :: "cleaned \<Rightarrow> js_error + contact_doc"
  construct :: "raw_contact \<Rightarrow> js_error + contact_doc"
  save :: "contact_doc \<Rightarrow> js_error + unit"

type_synonym transport = "mail \<Rightarrow> js_error + mail_info"

datatype call =
    CreateCall cleaned
  | ConstructCall raw_contact
  | SaveCall contact_doc
  | SendMailCall mail

text \<open>
  Everything a handler can change: the stored documents, the delivered mails, the
  calls made to the collaborators (successful or not) and the console; \<open>now\<close> is the clock.
\<close>

record world =
  db :: "contact_doc list"
  sent :: "mail list"
  calls :: "call list"
  console :: "jsstring list"
  now :: nat

text \<open>The module-level variables of \<open>server/server.js\<close> and \<open>process.env\<close>.\<close>

record server =
  transporter :: "transport option"
  dbReady :: bool
  Contact :: "contact_model option"
  env :: "jsstring \<Rightarrow> jsstring option"
  readyState :: nat

text \<open>The root \<open>server.js\<close> declares both collaborators as constants that are never null.\<close>

record root_server =
  root_transporter :: transport
  root_Contact :: contact_model
  root_env :: "jsstring \<Rightarrow> jsstring option"

text \<open>\<open>process.env.K || d\<close>\<close>

definition env_or :: "(jsstring \<Rightarrow> jsstring option) \<Rightarrow> string \<Rightarrow> jsstring \<Rightarrow> jsstring" where
  "env_or e k d = (case e (ustr k) of None \<Rightarrow> d | Some v \<Rightarrow> if v \<noteq> [] then v else d)"

definition Contact_create ::
  "contact_model \<Rightarrow> cleaned \<Rightarrow> world \<Rightarrow> (js_error + contact_doc) \<times> world" where
  "Contact_create m c w =
     (let w1 = w\<lparr>calls := calls w @ [CreateCall c]\<rparr>
      in case create m c of
           Inl e \<Rightarrow> (Inl e, w1)
         | Inr d \<Rightarrow> (Inr d, w1\<lparr>db := db w1 @ [d]\<rparr>))"

definition new_Contact ::
  "contact_model \<Rightarrow> raw_contact \<Rightarrow> world \<Rightarrow> (js_error + contact_doc) \<times> world" where
  "new_Contact m r w = (construct m r, w\<lparr>calls := calls w @ [ConstructCall r]\<rparr>)"

definition doc_save ::
  "contact_model \<Rightarrow> contact_doc \<Rightarrow> world \<Rightarrow> (js_error + unit) \<times> world" where
  "doc_save m d w =
     (let w1 = w\<lparr>calls := calls w @ [SaveCall d]\<rparr>
      in case save m d of
           Inl e \<Rightarrow> (Inl e, w1)
         | Inr u \<Rightarrow> (Inr u, w1\<lparr>db := db w1 @ [d]\<rparr>))"

definition sendMail ::
  "transport \<Rightarrow> mail \<Rightarrow> world \<Rightarrow> (js_error + mail_info) \<times> world" where
  "sendMail t m w =
     (let w1 = w\<lparr>calls := calls w @ [SendMailCall m]\<rparr>
      in case t m of
           Inl e \<Rightarrow> (Inl e, w1)
         | Inr i \<Rightarrow> (Inr i, w1\<lparr>sent := sent w1 @ [m]\<rparr>))"

definition console_line :: "string \<Rightarrow> world \<Rightarrow> world" where
  "console_line tag w = w\<lparr>console := console w @ [ustr tag]\<rparr>"

text \<open>An identifier or a document field inside a response or a template literal.\<close>

definition id_json :: "jsstring option \<Rightarrow> json" where
  "id_json i = (case i of None \<Rightarrow> JNull | Some s \<Rightarrow> JStr s)"

definition tpl :: "jsstring option \<Rightarrow> jsstring" where
  "tpl x = (case x of None \<Rightarrow> ustr ''undefined'' | Some s \<Rightarrow> s)"

definition or_blank :: "jsstring option \<Rightarrow> jsstring" where
  "or_blank x = (case x of None \<Rightarrow> [] | Some s \<Rightarrow> s)"

text \<open>\<open>req.headers['x-forwarded-for'] || req.socket.remoteAddress\<close>\<close>

definition client_ip :: "request \<Rightarrow> jsstring option" where
  "client_ip req =
     (case x_forwarded_for req of
        None \<Rightarrow> remoteAddress req
      | Some h \<Rightarrow> if h \<noteq> [] then Some h else remoteAddress req)"

definition res_json :: "nat \<Rightarrow> (string \<times> json) list \<Rightarrow> response" where
  "res_json st kvs = \<lparr>status = st, payload = JObj (map (\<lambda>(k, v). (ustr k, v)) kvs)\<rparr>"

section \<open>The contact handler of \<open>part_000\<close> (optional storage, optional mail)\<close>

definition saved_line :: "jsstring \<Rightarrow> jsstring" where
  \<open>saved_line i = ustr ''<p style="margin:12px 0 0;color:#475569">Saved as #'' @ i @ ustr ''</p>''\<close>

text \<open>The \<open>html\<close> template literal; \<open>ind\<close> is the indentation of its lines in the source.\<close>

definition inquiry_html :: "string \<Rightarrow> cleaned \<Rightarrow> jsstring \<Rightarrow> jsstring" where
  \<open>inquiry_html ind c sl = concat
     [ustr ''\<newline>'', ustr ind,
      ustr ''<div style="font-family:system-ui,Segoe UI,Roboto,Arial,sans-serif;font-size:15px;color:#0f172a">\<newline>'',
      ustr ind, ustr ''  <h2 style="margin:0 0 8px">New Ops Scale inquiry</h2>\<newline>'',
      ustr ind, ustr ''  <p style="margin:0 0 6px"><strong>Name:</strong> '', name c, ustr ''</p>\<newline>'',
      ustr ind, ustr ''  <p style="margin:0 0 6px"><strong>Email:</strong> '', email c, ustr ''</p>\<newline>'',
      ustr ind, ustr ''  <p style="margin:12px 0 6px"><strong>Message:</strong></p>\<newline>'',
      ustr ind,
      ustr ''  <div style="white-space:pre-wrap;background:#f8fafc;border:1px solid #e2e8f0;border-radius:8px;padding:12px">'',
      message c, ustr ''</div>\<newline>'',
      ustr ind, ustr ''  '', sl, ustr ''\<newline>'',
      ustr ind, ustr ''</div>'']\<close>

text \<open>\<open>String(x || '').trim()\<close>\<close>

definition clean_field :: "json option \<Rightarrow> js_error + jsstring" where
  "clean_field x = (case js_String (or_empty x) of Inl e \<Rightarrow> Inl e | Inr s \<Rightarrow> Inr (trim s))"

text \<open>The object literal \<open>cleaned\<close>: the three conversions run in source order.\<close>

definition make_cleaned :: "request \<Rightarrow> js_error + cleaned" where
  "make_cleaned req =
     (case clean_field (field (body req) ''name'') of
        Inl e \<Rightarrow> Inl e
      | Inr n \<Rightarrow>
     (case clean_field (field (body req) ''email'') of
        Inl e \<Rightarrow> Inl e
      | Inr em \<Rightarrow>
     (case clean_field (field (body req) ''message'') of
        Inl e \<Rightarrow> Inl e
      | Inr m \<Rightarrow> Inr \<lparr>name = n, email = em, message = m, ip = client_ip req\<rparr>)))"

definition invalid_input :: "cleaned \<Rightarrow> bool" where
  "invalid_input c \<longleftrightarrow> name c = [] \<or> \<not> emailOk (email c) \<or> message c = []"

definition mail_000 :: "server \<Rightarrow> cleaned \<Rightarrow> jsstring option \<Rightarrow> mail" where
  "mail_000 srv c i =
     \<lparr>mail_from = env_or (env srv) ''MAIL_FROM'' (ustr ''Ops Scale <noreply@opsscale.tech>''),
      mail_to = env_or (env srv) ''MAIL_TO'' (ustr ''you@example.com''),
      subject = ustr ''Ops Scale '' @ [0x2014] @ ustr '' New Inquiry from '' @ name c,
      replyTo = Some (email c),
      html = inquiry_html ''        '' c
               (case i of None \<Rightarrow> [] | Some s \<Rightarrow> if s \<noteq> [] then saved_line s else [])\<rparr>"

text \<open>The body of the \<open>try\<close> block: \<open>Inl\<close> is an exception reaching the \<open>catch\<close>.\<close>

definition api_contact_000_try ::
  "server \<Rightarrow> request \<Rightarrow> world \<Rightarrow> (js_error + response) \<times> world" where
  "api_contact_000_try srv req w =
     (if truthy_opt (field (body req) ''company'')
      then (Inr (res_json 200 [(''success'', JBool True)]), w)
      else case make_cleaned req of
        Inl e \<Rightarrow> (Inl e, w)
      | Inr c \<Rightarrow>
          if invalid_input c
          then (Inr (res_json 400 [(''success'', JBool False),
                                   (''error'', JStr (ustr ''Invalid input.''))]), w)
          else
            (case (case (if dbReady srv then Contact srv else None) of
                     None \<Rightarrow> (Inr (False, None), w)
                   | Some m \<Rightarrow>
                       (case Contact_create m c w of
                          (Inl e, w1) \<Rightarrow> (Inl e, w1)
                        | (Inr doc, w1) \<Rightarrow> (Inr (True, Some (doc_id doc)), w1))) of
               (Inl e, w1) \<Rightarrow> (Inl e, w1)
             | (Inr (saved, i), w1) \<Rightarrow>
                 (case (case transporter srv of
                          None \<Rightarrow> (Inr (), w1)
                        | Some t \<Rightarrow>
                            (case sendMail t (mail_000 srv c i) w1 of
                               (Inl e, w2) \<Rightarrow> (Inl e, w2)
                             | (Inr info, w2) \<Rightarrow> (Inr (), w2))) of
                    (Inl e, w2) \<Rightarrow> (Inl e, w2)
                  | (Inr u, w2) \<Rightarrow>
                      (Inr (res_json 200 [(''success'', JBool True),
                                          (''saved'', JBool saved),
                                          (''id'', id_json i),
                                          (''mailed'', JBool (transporter srv \<noteq> None))]),
                       w2))))"

definition api_contact_000 :: "server \<Rightarrow> request \<Rightarrow> world \<Rightarrow> response \<times> world" where
  "api_contact_000 srv req w =
     (case api_contact_000_try srv req w of
        (Inr r, w1) \<Rightarrow> (r, w1)
      | (Inl err, w1) \<Rightarrow>
          (res_json 500 [(''success'', JBool False), (''error'', JStr (ustr ''Server error.''))],
           console_line ''[api/contact] error:'' w1))"

definition health_000 :: "server \<Rightarrow> response" where
  "health_000 srv =
     res_json 200 [(''ok'', JBool True), (''db'', JBool (dbReady srv)),
                   (''mail'', JBool (transporter srv \<noteq> None))]"

text \<open>
  The start of \<open>part_000\<close>: \<open>transporter\<close> is created when \<open>SENDGRID_SMTP_PASS\<close> is set;
  \<open>connectDB\<close> returns at once without \<open>MONGO_URI\<close>, and otherwise sets \<open>dbReady\<close> and
  \<open>Contact\<close> after \<open>mongoose.connect\<close> has resolved (a rejection is caught and logged, and
  the server listens all the same). \<open>t\<close> is the transport \<open>createTransport\<close> returns, \<open>conn\<close>
  the outcome of connecting; \<open>readyState\<close> is 1 for an open connection. Nothing in the file
  assigns \<open>dbReady\<close> or \<open>Contact\<close> again.
\<close>

definition env_set :: "(jsstring \<Rightarrow> jsstring option) \<Rightarrow> string \<Rightarrow> bool" where
  "env_set e k = (case e (ustr k) of None \<Rightarrow> False | Some v \<Rightarrow> v \<noteq> [])"

definition start_000 ::
  "(jsstring \<Rightarrow> jsstring option) \<Rightarrow> transport \<Rightarrow> js_error + contact_model \<Rightarrow> server" where
  "start_000 e t conn =
     (let tr = (if env_set e ''SENDGRID_SMTP_PASS'' then Some t else None)
      in if \<not> env_set e ''MONGO_URI''
         then \<lparr>transporter = tr, dbReady = False, Contact = None, env = e, readyState = 0\<rparr>
         else case conn of
                Inl err \<Rightarrow>
                  \<lparr>transporter = tr, dbReady = False, Contact = None, env = e, readyState = 0\<rparr>
              | Inr m \<Rightarrow>
                  \<lparr>transporter = tr, dbReady = True, Contact = Some m, env = e, readyState = 1\<rparr>)"

section \<open>The contact handler of the first server of \<open>part_001\<close> (mail failure tolerated)\<close>

definition contact_email :: "server \<Rightarrow> contact_doc \<Rightarrow> mail" where
  \<open>contact_email srv doc =
     \<lparr>mail_from = env_or (env srv) ''MAIL_FROM'' (ustr ''Ops Scale <noreply@opsscale.tech>''),
      mail_to = env_or (env srv) ''MAIL_TO'' (ustr ''opsscaletech@gmail.com''),
      subject = ustr ''New inquiry from '' @ tpl (doc_name doc),
      replyTo = None,
      html = concat
        [ustr ''\<newline>    <h2>New Contact Submission</h2>\<newline>'',
         ustr ''    <p><strong>Name:</strong> '', tpl (doc_name doc), ustr ''</p>\<newline>'',
         ustr ''    <p><strong>Email:</strong> '', tpl (doc_email doc), ustr ''</p>\<newline>'',
         ustr ''    <p><strong>Message:</strong><br/>'', or_blank (doc_message doc), ustr ''</p>\<newline>'',
         ustr ''    <p><small>IP: '', or_blank (doc_ip doc), ustr ''</small></p>\<newline>  '']\<rparr>\<close>

text \<open>\<open>transporter.sendMail\<close> on a null \<open>transporter\<close> throws a \<open>TypeError\<close>.\<close>

definition sendContactEmail ::
  "server \<Rightarrow> contact_doc \<Rightarrow> world \<Rightarrow> (js_error + mail_info) \<times> world" where
  "sendContactEmail srv doc w =
     (case transporter srv of
        None \<Rightarrow> (Inl TypeError, w)
      | Some t \<Rightarrow>
          (case sendMail t (contact_email srv doc) w of
             (Inl e, w1) \<Rightarrow> (Inl e, w1)
           | (Inr info, w1) \<Rightarrow> (Inr info, console_line ''[mail] sendMail accepted, id:'' w1)))"

text \<open>\<open>Boolean(info && info.accepted && info.accepted.length)\<close>\<close>

definition accepted_some :: "mail_info \<Rightarrow> bool" where
  "accepted_some info = (case accepted info of None \<Rightarrow> False | Some l \<Rightarrow> l \<noteq> [])"

text \<open>\<open>new Contact(...)\<close> on a null \<open>Contact\<close> throws a \<open>TypeError\<close>.\<close>

definition api_contact_001a_try ::
  "server \<Rightarrow> request \<Rightarrow> world \<Rightarrow> (js_error + response) \<times> world" where
  "api_contact_001a_try srv req w =
     (if \<not> truthy_opt (field (body req) ''name'') \<or> \<not> truthy_opt (field (body req) ''email'')
         \<or> \<not> truthy_opt (field (body req) ''message'')
      then (Inr (res_json 400 [(''success'', JBool False),
                               (''error'', JStr (ustr ''Missing required fields''))]), w)
      else case Contact srv of
        None \<Rightarrow> (Inl TypeError, w)
      | Some m \<Rightarrow>
          (case new_Contact m
                  \<lparr>raw_name = field (body req) ''name'', raw_email = field (body req) ''email'',
                   raw_message = field (body req) ''message'', raw_ip = req_ip req,
                   createdAt = now w\<rparr> w of
             (Inl e, w1) \<Rightarrow> (Inl e, w1)
           | (Inr doc, w1) \<Rightarrow>
               (case doc_save m doc w1 of
                  (Inl e, w2) \<Rightarrow> (Inl e, w2)
                | (Inr u, w2) \<Rightarrow>
                    (case (case sendContactEmail srv doc w2 of
                             (Inr info, w3) \<Rightarrow> (accepted_some info, w3)
                           | (Inl e, w3) \<Rightarrow>
                               (False, console_line ''[mail] sendContactEmail error:'' w3)) of
                       (mailed, w3) \<Rightarrow>
                         (Inr (res_json 200 [(''success'', JBool True),
                                             (''saved'', JBool True),
                                             (''id'', JStr (doc_id doc)),
                                             (''mailed'', JBool mailed)]),
                          w3)))))"

definition api_contact_001a :: "server \<Rightarrow> request \<Rightarrow> world \<Rightarrow> response \<times> world" where
  "api_contact_001a srv req w =
     (case api_contact_001a_try srv req w of
        (Inr r, w1) \<Rightarrow> (r, w1)
      | (Inl err, w1) \<Rightarrow>
          (res_json 500 [(''success'', JBool False), (''error'', JStr (ustr ''Server error''))],
           console_line ''[api] /api/contact error:'' w1))"

text \<open>\<open>mongoose.connection.readyState === 1\<close> and \<open>Boolean(process.env.SENDGRID_SMTP_PASS)\<close>\<close>

definition health_001a :: "server \<Rightarrow> response" where
  "health_001a srv =
     res_json 200 [(''ok'', JBool True), (''db'', JBool (readyState srv = 1)),
                   (''mail'', JBool (case env srv (ustr ''SENDGRID_SMTP_PASS'') of
                                       None \<Rightarrow> False | Some v \<Rightarrow> v \<noteq> []))]"

section \<open>The contact handler of the root server of \<open>part_001\<close> (both collaborators mandatory)\<close>

definition mail_001b :: "root_server \<Rightarrow> cleaned \<Rightarrow> contact_doc \<Rightarrow> mail" where
  "mail_001b srv c doc =
     \<lparr>mail_from = env_or (root_env srv) ''MAIL_FROM'' (ustr ''Ops Scale <noreply@opsscale.tech>''),
      mail_to = env_or (root_env srv) ''MAIL_TO'' (ustr ''brandontstephens25@gmail.com''),
      subject = ustr ''Ops Scale '' @ [0xE2, 0x20AC, 0x201D] @ ustr '' New Inquiry from '' @ name c,
      replyTo = Some (email c),
      html = inquiry_html ''      '' c (saved_line (doc_id doc))\<rparr>"

definition api_contact_001b_try ::
  "root_server \<Rightarrow> request \<Rightarrow> world \<Rightarrow> (js_error + response) \<times> world" where
  "api_contact_001b_try srv req w =
     (if truthy_opt (field (body req) ''company'')
      then (Inr (res_json 200 [(''success'', JBool True)]), w)
      else case make_cleaned req of
        Inl e \<Rightarrow> (Inl e, w)
      | Inr c \<Rightarrow>
          if invalid_input c
          then (Inr (res_json 400 [(''success'', JBool False),
                                   (''error'', JStr (ustr ''Invalid input.''))]), w)
          else
            (case Contact_create (root_Contact srv) c w of
               (Inl e, w1) \<Rightarrow> (Inl e, w1)
             | (Inr doc, w1) \<Rightarrow>
                 (case sendMail (root_transporter srv) (mail_001b srv c doc) w1 of
                    (Inl e, w2) \<Rightarrow> (Inl e, w2)
                  | (Inr info, w2) \<Rightarrow>
                      (Inr (res_json 200 [(''success'', JBool True),
                                          (''id'', JStr (doc_id doc))]), w2))))"

definition api_contact_001b :: "root_server \<Rightarrow> request \<Rightarrow> world \<Rightarrow> response \<times> world" where
  "api_contact_001b srv req w =
     (case api_contact_001b_try srv req w of
        (Inr r, w1) \<Rightarrow> (r, w1)
      | (Inl err, w1) \<Rightarrow>
          (res_json 500 [(''success'', JBool False), (''error'', JStr (ustr ''Server error.''))],
           console_line ''[api/contact] error:'' w1))"

definition health_001b :: response where
  "health_001b = res_json 200 [(''ok'', JBool True)]"

section \<open>Notions used to state the properties\<close>

text \<open>
  The specification's wording of the e-mail shape, taken literally:
  non-whitespace, \<open>@\<close>, non-whitespace, \<open>.\<close>, non-whitespace.
\<close>

definition spec_email_shape :: "jsstring \<Rightarrow> bool" where
  "spec_email_shape s \<longleftrightarrow>
     (\<exists>l d t. s = l @ [0x40] @ d @ [0x2E] @ t \<and> l \<noteq> [] \<and> d \<noteq> [] \<and> t \<noteq> [] \<and>
        (\<forall>c \<in> set (l @ d @ t). \<not> is_space c))"

text \<open>
  The values \<open>String\<close> converts without throwing: no object with an own member \<open>toString\<close>
  is reached, neither directly nor as an element of (nested) arrays.
\<close>

fun stringifiable :: "json \<Rightarrow> bool" where
  "stringifiable (JObj kvs) = (ustr ''toString'' \<notin> fst ` set kvs)"
| "stringifiable (JArr xs) = (\<forall>x \<in> set xs. stringifiable x)"
| "stringifiable v = True"

definition stringifiable_opt :: "json option \<Rightarrow> bool" where
  "stringifiable_opt x = (case x of None \<Rightarrow> True | Some v \<Rightarrow> stringifiable v)"

text \<open>
  A submission the handlers of \<open>part_000\<close> and of the root server accept: the honeypot is
  not taken, normalisation yields \<open>c\<close>, and \<open>c\<close> passes the validation.
\<close>

definition valid_submission :: "request \<Rightarrow> cleaned \<Rightarrow> bool" where
  "valid_submission req c \<longleftrightarrow>
     \<not> truthy_opt (field (body req) ''company'') \<and> make_cleaned req = Inr c \<and> \<not> invalid_input c"

text \<open>
  For the first server of \<open>part_001\<close>: the three fields pass its check
  \<open>!name || !email || !message\<close>, and the object it gives to \<open>new Contact\<close>.
\<close>

definition present :: "request \<Rightarrow> bool" where
  "present req \<longleftrightarrow> truthy_opt (field (body req) ''name'') \<and> truthy_opt (field (body req) ''email'')
     \<and> truthy_opt (field (body req) ''message'')"

definition raw_of :: "request \<Rightarrow> world \<Rightarrow> raw_contact" where
  "raw_of req w = \<lparr>raw_name = field (body req) ''name'', raw_email = field (body req) ''email'',
                   raw_message = field (body req) ''message'', raw_ip = req_ip req,
                   createdAt = now w\<rparr>"

section \<open>Concrete requests and configurations\<close>

definition obj :: "(string \<times> json) list \<Rightarrow> json" where
  "obj kvs = JObj (map (\<lambda>(k, v). (ustr k, v)) kvs)"

definition post :: "json \<Rightarrow> request" where
  "post b = \<lparr>body = Some b, x_forwarded_for = None,
             remoteAddress = Some (ustr ''203.0.113.7''), req_ip = Some (ustr ''203.0.113.7'')\<rparr>"

definition w0 :: world where
  "w0 = \<lparr>db = [], sent = [], calls = [], console = [], now = 0\<rparr>"

definition ada :: json where
  "ada = obj [(''name'', JStr (ustr ''Ada'')), (''email'', JStr (ustr ''ada@example.com'')),
              (''message'', JStr (ustr ''hello''))]"

definition ada_cleaned :: cleaned where
  "ada_cleaned = \<lparr>name = ustr ''Ada'', email = ustr ''ada@example.com'', message = ustr ''hello'',
                   ip = Some (ustr ''203.0.113.7'')\<rparr>"

definition bot :: json where
  "bot = obj [(''name'', JStr (ustr ''Bot'')), (''email'', JStr (ustr ''a@b.com'')),
              (''message'', JStr (ustr ''spam'')), (''company'', JStr (ustr ''Acme''))]"

definition bot_no_name :: json where
  "bot_no_name = obj [(''email'', JStr (ustr ''a@b.com'')), (''message'', JStr (ustr ''spam'')),
                      (''company'', JStr (ustr ''Acme''))]"

definition no_name :: json where
  "no_name = obj [(''name'', JStr []), (''email'', JStr (ustr ''ada@example.com'')),
                  (''message'', JStr (ustr ''hello''))]"

definition blank_name :: json where
  "blank_name = obj [(''name'', JStr (ustr ''   '')), (''email'', JStr (ustr ''ada@example.com'')),
                     (''message'', JStr (ustr ''hello''))]"

definition numbers :: json where
  "numbers = obj [(''name'', JNum 42), (''email'', JStr (ustr ''a@b.co'')), (''message'', JNum 7)]"

definition numbers_cleaned :: cleaned where
  "numbers_cleaned = \<lparr>name = ustr ''42'', email = ustr ''a@b.co'', message = ustr ''7'',
                       ip = Some (ustr ''203.0.113.7'')\<rparr>"

definition shadowed :: json where
  "shadowed = obj [(''name'', obj [(''toString'', JNum 1)]), (''email'', JStr (ustr ''a@b.co'')),
                   (''message'', JStr (ustr ''hello''))]"

definition shadowed_no_message :: json where
  "shadowed_no_message =
     obj [(''name'', obj [(''toString'', JNum 1)]), (''email'', JStr (ustr ''a@b.co''))]"

definition env_all :: "jsstring \<Rightarrow> jsstring option" where
  "env_all k = (if k = ustr ''MONGO_URI'' then Some (ustr ''mongodb://db.example/ops'')
                else if k = ustr ''SENDGRID_SMTP_PASS'' then Some (ustr ''SG.key'')
                else None)"

definition a_doc :: contact_doc where
  "a_doc = \<lparr>doc_id = ustr ''65f1c0ffee0ddba11deadbee'', doc_name = Some (ustr ''Ada''),
            doc_email = Some (ustr ''ada@example.com''), doc_message = Some (ustr ''hello''),
            doc_ip = Some (ustr ''203.0.113.7'')\<rparr>"

definition model_ok :: contact_model where
  "model_ok = \<lparr>create = (\<lambda>c. Inr a_doc), construct = (\<lambda>r. Inr a_doc), save = (\<lambda>d. Inr ())\<rparr>"

definition model_failing :: contact_model where
  "model_failing =
     \<lparr>create = (\<lambda>c. Inl (Rejected (ustr ''write rejected''))), construct = (\<lambda>r. Inr a_doc),
      save = (\<lambda>d. Inl (Rejected (ustr ''write rejected'')))\<rparr>"

definition an_info :: mail_info where
  "an_info = \<lparr>messageId = ustr ''<1@opsscale.tech>'', accepted = Some [ustr ''you@example.com'']\<rparr>"

definition transport_ok :: transport where
  "transport_ok = (\<lambda>m. Inr an_info)"

definition transport_failing :: transport where
  "transport_failing = (\<lambda>m. Inl (Rejected (ustr ''connection refused'')))"

definition no_env :: "jsstring \<Rightarrow> jsstring option" where
  "no_env = (\<lambda>k. None)"

definition srv_all :: server where
  "srv_all = \<lparr>transporter = Some transport_ok, dbReady = True, Contact = Some model_ok,
              env = no_env, readyState = 1\<rparr>"

definition srv_none :: server where
  "srv_none = \<lparr>transporter = None, dbReady = False, Contact = None, env = no_env, readyState = 0\<rparr>"

definition srv_mail_down :: server where
  "srv_mail_down = \<lparr>transporter = Some transport_failing, dbReady = True, Contact = Some model_ok,
                    env = no_env, readyState = 1\<rparr>"

definition srv_db_down :: server where
  "srv_db_down = \<lparr>transporter = Some transport_ok, dbReady = True, Contact = Some model_failing,
                  env = no_env, readyState = 1\<rparr>"

definition srv_db_only :: server where
  "srv_db_only = \<lparr>transporter = None, dbReady = True, Contact = Some model_ok,
                  env = no_env, readyState = 1\<rparr>"

definition root_all :: root_server where
  "root_all = \<lparr>root_transporter = transport_ok, root_Contact = model_ok, root_env = no_env\<rparr>"

definition root_mail_down :: root_server where
  "root_mail_down =
     \<lparr>root_transporter = transport_failing, root_Contact = model_ok, root_env = no_env\<rparr>"

section \<open>Evaluation of the concrete requests\<close>

named_theorems ex_defs

lemmas [ex_defs] = obj_def post_def w0_def ada_def ada_cleaned_def bot_def bot_no_name_def
  no_name_def blank_name_def numbers_def numbers_cleaned_def shadowed_def a_doc_def model_ok_def
  model_failing_def an_info_def transport_ok_def transport_failing_def no_env_def srv_all_def
  srv_none_def srv_mail_down_def srv_db_down_def srv_db_only_def root_all_def
  root_mail_down_def

lemmas rx_defs = emailOk_def email_rx_def not_space_at_def is_space_def is_at_def is_dot_def

lemma valid_ada: "valid_submission (post ada) ada_cleaned"
  by (simp add: valid_submission_def make_cleaned_def clean_field_def field_def or_empty_def
      truthy_opt_def invalid_input_def client_ip_def trim_def ustr_def rx_defs ex_defs)

lemma valid_numbers: "valid_submission (post numbers) numbers_cleaned"
  by (simp add: valid_submission_def make_cleaned_def clean_field_def field_def or_empty_def
      truthy_opt_def invalid_input_def client_ip_def trim_def ustr_def rx_defs ex_defs
      number_to_string_def digits.simps)

section \<open>Conversion to strings\<close>

lemma js_String_join_total:
  "((\<exists>s. js_String v = Inr s) \<longleftrightarrow> stringifiable v)"
  "((\<exists>s. join xs = Inr s) \<longleftrightarrow> (\<forall>x \<in> set xs. stringifiable x))"
proof (induction v and xs rule: js_String_join.induct)
  case (9 x xs)
  show ?case
  proof (cases "x = JNull")
    case True
    with 9 show ?thesis by (auto split: sum.splits)
  next
    case False
    with 9 show ?thesis by (cases "js_String x"; cases "join xs") (auto split: sum.splits)
  qed
qed auto

lemma digits_range: "\<forall>c \<in> set (digits n). 48 \<le> c \<and> c \<le> 57"
proof (induction n rule: digits.induct)
  case (1 n)
  show ?case
  proof (cases "n < 10")
    case True
    then show ?thesis by (subst digits.simps) simp
  next
    case False
    with 1 have "\<forall>c \<in> set (digits (n div 10)). 48 \<le> c \<and> c \<le> 57" by simp
    moreover have "n mod 10 < 10" by simp
    ultimately show ?thesis using False by (subst digits.simps) auto
  qed
qed

lemma digit_no_space: "48 \<le> c \<Longrightarrow> c \<le> 57 \<Longrightarrow> \<not> is_space c"
  by (simp add: is_space_def)

lemma minus_no_space: "\<not> is_space 45"
  by (simp add: is_space_def)

lemma number_no_space: "\<forall>c \<in> set (number_to_string n). \<not> is_space c"
proof
  fix c assume "c \<in> set (number_to_string n)"
  then have "c = 45 \<or> c \<in> set (digits (nat (- n))) \<or> c \<in> set (digits (nat n))"
    by (auto simp: number_to_string_def split: if_splits)
  then show "\<not> is_space c"
    using digits_range digit_no_space minus_no_space by blast
qed

lemma trim_no_space: "\<forall>c \<in> set s. \<not> is_space c \<Longrightarrow> trim s = s"
proof -
  assume a: "\<forall>c \<in> set s. \<not> is_space c"
  have d: "\<And>t. \<forall>c \<in> set t. \<not> is_space c \<Longrightarrow> dropWhile is_space t = t"
    by (case_tac t) auto
  from a have "dropWhile is_space s = s" by (rule d)
  moreover from a have "dropWhile is_space (rev s) = rev s" by (intro d) simp
  ultimately show ?thesis by (simp add: trim_def)
qed


lemma trim_Nil: "trim [] = []"
  by (simp add: trim_def)

lemma clean_field_absent: "clean_field None = Inr []" "clean_field (Some JNull) = Inr []"
  by (simp_all add: clean_field_def or_empty_def trim_Nil)

lemma clean_field_string: "clean_field (Some (JStr s)) = Inr (trim s)"
  by (simp add: clean_field_def or_empty_def trim_Nil)

lemma clean_field_number:
  "clean_field (Some (JNum n)) = Inr (if n = 0 then [] else number_to_string n)"
proof (cases "n = 0")
  case True
  then show ?thesis by (simp add: clean_field_def or_empty_def trim_Nil)
next
  case False
  have "trim (number_to_string n) = number_to_string n"
    by (rule trim_no_space) (rule number_no_space)
  with False show ?thesis by (simp add: clean_field_def or_empty_def)
qed

lemma clean_field_real: "clean_field (Some (JReal t)) = Inr (trim t)"
  by (simp add: clean_field_def or_empty_def)

lemma clean_field_total:
  "stringifiable_opt x \<Longrightarrow> \<exists>s. clean_field x = Inr s"
proof -
  assume "stringifiable_opt x"
  then have "stringifiable (or_empty x)"
    by (auto simp: stringifiable_opt_def or_empty_def split: option.splits)
  then obtain s where "js_String (or_empty x) = Inr s"
    using js_String_join_total(1) by blast
  then show ?thesis by (simp add: clean_field_def)
qed

lemma make_cleaned_total:
  assumes "stringifiable_opt (field (body req) ''name'')"
    "stringifiable_opt (field (body req) ''email'')"
    "stringifiable_opt (field (body req) ''message'')"
  shows "\<exists>c. make_cleaned req = Inr c"
proof -
  obtain n where "clean_field (field (body req) ''name'') = Inr n"
    using clean_field_total [OF assms(1)] ..
  moreover obtain e where "clean_field (field (body req) ''email'') = Inr e"
    using clean_field_total [OF assms(2)] ..
  moreover obtain m where "clean_field (field (body req) ''message'') = Inr m"
    using clean_field_total [OF assms(3)] ..
  ultimately show ?thesis by (simp add: make_cleaned_def)
qed

lemma emailOk_Nil: "\<not> emailOk []"
  by (simp add: rx_defs)


section \<open>The handler of \<open>part_000\<close>, case by case\<close>

lemmas resp_000_defs = api_contact_000_def api_contact_000_try_def valid_submission_def
  Contact_create_def sendMail_def Let_def

lemma honeypot_000:
  "truthy_opt (field (body req) ''company'') \<Longrightarrow>
     api_contact_000 srv req w = (res_json 200 [(''success'', JBool True)], w)"
  by (simp add: api_contact_000_def api_contact_000_try_def)

lemma honeypot_001b:
  "truthy_opt (field (body req) ''company'') \<Longrightarrow>
     api_contact_001b rsrv req w = (res_json 200 [(''success'', JBool True)], w)"
  by (simp add: api_contact_001b_def api_contact_001b_try_def)

lemma conversion_throws_000:
  "\<not> truthy_opt (field (body req) ''company'') \<Longrightarrow> make_cleaned req = Inl e \<Longrightarrow>
     api_contact_000 srv req w =
       (res_json 500 [(''success'', JBool False), (''error'', JStr (ustr ''Server error.''))],
        console_line ''[api/contact] error:'' w)"
  by (simp add: api_contact_000_def api_contact_000_try_def)

lemma conversion_throws_001b:
  "\<not> truthy_opt (field (body req) ''company'') \<Longrightarrow> make_cleaned req = Inl e \<Longrightarrow>
     api_contact_001b rsrv req w =
       (res_json 500 [(''success'', JBool False), (''error'', JStr (ustr ''Server error.''))],
        console_line ''[api/contact] error:'' w)"
  by (simp add: api_contact_001b_def api_contact_001b_try_def)

lemma invalid_000:
  "\<not> truthy_opt (field (body req) ''company'') \<Longrightarrow> make_cleaned req = Inr c \<Longrightarrow>
   invalid_input c \<Longrightarrow>
     api_contact_000 srv req w =
       (res_json 400 [(''success'', JBool False), (''error'', JStr (ustr ''Invalid input.''))], w)"
  by (simp add: api_contact_000_def api_contact_000_try_def)

lemma write_fails_000:
  assumes "valid_submission req c" "dbReady srv" "Contact srv = Some m" "create m c = Inl e"
  shows "api_contact_000 srv req w =
    (res_json 500 [(''success'', JBool False), (''error'', JStr (ustr ''Server error.''))],
     console_line ''[api/contact] error:'' (w\<lparr>calls := calls w @ [CreateCall c]\<rparr>))"
  using assms by (simp add: resp_000_defs)

lemma stored_mail_throws_000:
  assumes "valid_submission req c" "dbReady srv" "Contact srv = Some m" "create m c = Inr doc"
    "transporter srv = Some t" "t (mail_000 srv c (Some (doc_id doc))) = Inl e"
  shows "api_contact_000 srv req w =
    (res_json 500 [(''success'', JBool False), (''error'', JStr (ustr ''Server error.''))],
     console_line ''[api/contact] error:''
       (w\<lparr>db := db w @ [doc],
          calls := calls w @ [CreateCall c, SendMailCall (mail_000 srv c (Some (doc_id doc)))]\<rparr>))"
  using assms by (simp add: resp_000_defs)

lemma stored_mail_sent_000:
  assumes "valid_submission req c" "dbReady srv" "Contact srv = Some m" "create m c = Inr doc"
    "transporter srv = Some t" "t (mail_000 srv c (Some (doc_id doc))) = Inr info"
  shows "api_contact_000 srv req w =
    (res_json 200 [(''success'', JBool True), (''saved'', JBool True),
                   (''id'', JStr (doc_id doc)), (''mailed'', JBool True)],
     w\<lparr>db := db w @ [doc], sent := sent w @ [mail_000 srv c (Some (doc_id doc))],
       calls := calls w @ [CreateCall c, SendMailCall (mail_000 srv c (Some (doc_id doc)))]\<rparr>)"
  using assms by (simp add: resp_000_defs id_json_def)

lemma stored_no_mail_000:
  assumes "valid_submission req c" "dbReady srv" "Contact srv = Some m" "create m c = Inr doc"
    "transporter srv = None"
  shows "api_contact_000 srv req w =
    (res_json 200 [(''success'', JBool True), (''saved'', JBool True),
                   (''id'', JStr (doc_id doc)), (''mailed'', JBool False)],
     w\<lparr>db := db w @ [doc], calls := calls w @ [CreateCall c]\<rparr>)"
  using assms by (simp add: resp_000_defs id_json_def)

lemma no_storage_no_mail_000:
  assumes "valid_submission req c" "\<not> dbReady srv \<or> Contact srv = None" "transporter srv = None"
  shows "api_contact_000 srv req w =
    (res_json 200 [(''success'', JBool True), (''saved'', JBool False),
                   (''id'', JNull), (''mailed'', JBool False)], w)"
  using assms by (auto simp add: resp_000_defs id_json_def)

lemma no_storage_mail_sent_000:
  assumes "valid_submission req c" "\<not> dbReady srv \<or> Contact srv = None"
    "transporter srv = Some t" "t (mail_000 srv c None) = Inr info"
  shows "api_contact_000 srv req w =
    (res_json 200 [(''success'', JBool True), (''saved'', JBool False),
                   (''id'', JNull), (''mailed'', JBool True)],
     w\<lparr>sent := sent w @ [mail_000 srv c None],
       calls := calls w @ [SendMailCall (mail_000 srv c None)]\<rparr>)"
  using assms by (auto simp add: resp_000_defs id_json_def)

lemma no_storage_mail_throws_000:
  assumes "valid_submission req c" "\<not> dbReady srv \<or> Contact srv = None"
    "transporter srv = Some t" "t (mail_000 srv c None) = Inl e"
  shows "api_contact_000 srv req w =
    (res_json 500 [(''success'', JBool False), (''error'', JStr (ustr ''Server error.''))],
     console_line ''[api/contact] error:''
       (w\<lparr>calls := calls w @ [SendMailCall (mail_000 srv c None)]\<rparr>))"
  using assms by (auto simp add: resp_000_defs)

section \<open>The root handler of \<open>part_001\<close>\<close>

lemmas resp_001b_defs = api_contact_001b_def api_contact_001b_try_def valid_submission_def
  Contact_create_def sendMail_def Let_def

lemma stored_mail_throws_001b:
  assumes "valid_submission req c" "create (root_Contact r) c = Inr doc"
    "root_transporter r (mail_001b r c doc) = Inl e"
  shows "api_contact_001b r req w =
    (res_json 500 [(''success'', JBool False), (''error'', JStr (ustr ''Server error.''))],
     console_line ''[api/contact] error:''
       (w\<lparr>db := db w @ [doc],
          calls := calls w @ [CreateCall c, SendMailCall (mail_001b r c doc)]\<rparr>))"
  using assms by (simp add: resp_001b_defs)

section \<open>The first handler of \<open>part_001\<close>\<close>

lemmas resp_001a_defs = api_contact_001a_def api_contact_001a_try_def new_Contact_def
  doc_save_def sendContactEmail_def sendMail_def Let_def present_def raw_of_def

lemma missing_001a:
  "\<not> present req \<Longrightarrow>
     api_contact_001a srv req w =
       (res_json 400 [(''success'', JBool False),
                      (''error'', JStr (ustr ''Missing required fields''))], w)"
  by (auto simp add: api_contact_001a_def api_contact_001a_try_def present_def)

lemma null_Contact_001a:
  "present req \<Longrightarrow> Contact srv = None \<Longrightarrow>
     api_contact_001a srv req w =
       (res_json 500 [(''success'', JBool False), (''error'', JStr (ustr ''Server error''))],
        console_line ''[api] /api/contact error:'' w)"
  by (simp add: resp_001a_defs)

lemma saved_mail_throws_001a:
  assumes "present req" "Contact srv = Some m" "construct m (raw_of req w) = Inr doc"
    "save m doc = Inr ()" "transporter srv = Some t" "t (contact_email srv doc) = Inl e"
  shows "fst (api_contact_001a srv req w) =
    res_json 200 [(''success'', JBool True), (''saved'', JBool True),
                  (''id'', JStr (doc_id doc)), (''mailed'', JBool False)]"
  using assms by (simp add: resp_001a_defs)

lemma saved_null_transporter_001a:
  assumes "present req" "Contact srv = Some m" "construct m (raw_of req w) = Inr doc"
    "save m doc = Inr ()" "transporter srv = None"
  shows "fst (api_contact_001a srv req w) =
    res_json 200 [(''success'', JBool True), (''saved'', JBool True),
                  (''id'', JStr (doc_id doc)), (''mailed'', JBool False)]"
  using assms by (simp add: resp_001a_defs)

lemma saved_mail_sent_001a:
  assumes "present req" "Contact srv = Some m" "construct m (raw_of req w) = Inr doc"
    "save m doc = Inr ()" "transporter srv = Some t" "t (contact_email srv doc) = Inr info"
  shows "fst (api_contact_001a srv req w) =
    res_json 200 [(''success'', JBool True), (''saved'', JBool True),
                  (''id'', JStr (doc_id doc)), (''mailed'', JBool (accepted_some info))]"
  using assms by (simp add: resp_001a_defs)

lemma saved_always_success_001a:
  assumes "present req" "Contact srv = Some m" "construct m (raw_of req w) = Inr doc"
    "save m doc = Inr ()"
  shows "\<exists>mailed. fst (api_contact_001a srv req w) =
    res_json 200 [(''success'', JBool True), (''saved'', JBool True),
                  (''id'', JStr (doc_id doc)), (''mailed'', JBool mailed)]"
proof (cases "transporter srv")
  case None
  with assms show ?thesis using saved_null_transporter_001a by blast
next
  case (Some t)
  show ?thesis
  proof (cases "t (contact_email srv doc)")
    case (Inl e)
    with assms Some show ?thesis using saved_mail_throws_001a by blast
  next
    case (Inr info)
    with assms Some show ?thesis using saved_mail_sent_001a by blast
  qed
qed

lemma present_ada: "present (post ada)"
  by (simp add: present_def field_def truthy_opt_def ustr_def ex_defs)

section \<open>The e-mail check\<close>

lemma rx_One_iff: "rx_test (One p # r) s \<longleftrightarrow> (\<exists>c v. s = c # v \<and> p c \<and> rx_test r v)"
  by (cases s) auto

text \<open>A \<open>+\<close> atom takes a non-empty prefix of the class and leaves the rest to the tail.\<close>

lemma rx_Many_iff:
  "rx_test (Many p # r) s \<longleftrightarrow>
     (\<exists>u v. s = u @ v \<and> u \<noteq> [] \<and> (\<forall>c \<in> set u. p c) \<and> rx_test r v)"
proof (induction s)
  case Nil
  show ?case by simp
next
  case (Cons a s)
  show ?case
  proof
    assume "rx_test (Many p # r) (a # s)"
    then have pa: "p a" and alt: "rx_test (Many p # r) s \<or> rx_test r s" by auto
    from alt show "\<exists>u v. a # s = u @ v \<and> u \<noteq> [] \<and> (\<forall>c \<in> set u. p c) \<and> rx_test r v"
    proof
      assume "rx_test (Many p # r) s"
      with Cons.IH obtain u v where "s = u @ v" "u \<noteq> []" "\<forall>c \<in> set u. p c" "rx_test r v"
        by blast
      with pa have "a # s = (a # u) @ v \<and> a # u \<noteq> [] \<and> (\<forall>c \<in> set (a # u). p c) \<and> rx_test r v"
        by simp
      then show ?thesis by blast
    next
      assume "rx_test r s"
      with pa have "a # s = [a] @ s \<and> [a] \<noteq> [] \<and> (\<forall>c \<in> set [a]. p c) \<and> rx_test r s"
        by simp
      then show ?thesis by blast
    qed
  next
    assume "\<exists>u v. a # s = u @ v \<and> u \<noteq> [] \<and> (\<forall>c \<in> set u. p c) \<and> rx_test r v"
    then obtain u v where uv: "a # s = u @ v" "u \<noteq> []" "\<forall>c \<in> set u. p c" "rx_test r v"
      by blast
    then obtain u' where u: "u = a # u'" by (cases u) auto
    with uv have pa: "p a" and s: "s = u' @ v" and pu': "\<forall>c \<in> set u'. p c" by auto
    show "rx_test (Many p # r) (a # s)"
    proof (cases "u' = []")
      case True
      with s uv pa show ?thesis by simp
    next
      case False
      with s pu' uv have "rx_test (Many p # r) s" using Cons.IH by blast
      with pa show ?thesis by simp
    qed
  qed
qed

lemma rx_Many_last: "rx_test [Many p] s \<longleftrightarrow> s \<noteq> [] \<and> (\<forall>c \<in> set s. p c)"
  by (auto simp: rx_Many_iff)

lemma emailOk_iff:
  "emailOk s \<longleftrightarrow>
     (\<exists>l d t. s = l @ [0x40] @ d @ [0x2E] @ t \<and> l \<noteq> [] \<and> d \<noteq> [] \<and> t \<noteq> [] \<and>
        (\<forall>c \<in> set (l @ d @ t). \<not> is_space c \<and> c \<noteq> 0x40))"
proof -
  have "emailOk s \<longleftrightarrow>
     (\<exists>l v. s = l @ v \<and> l \<noteq> [] \<and> (\<forall>c \<in> set l. not_space_at c) \<and>
       (\<exists>a v1. v = a # v1 \<and> is_at a \<and>
         (\<exists>d v2. v1 = d @ v2 \<and> d \<noteq> [] \<and> (\<forall>c \<in> set d. not_space_at c) \<and>
           (\<exists>b t. v2 = b # t \<and> is_dot b \<and> t \<noteq> [] \<and> (\<forall>c \<in> set t. not_space_at c)))))"
    unfolding emailOk_def email_rx_def
    by (simp only: rx_Many_iff [of _ "_ # _"] rx_One_iff rx_Many_last)
  also have "\<dots> \<longleftrightarrow>
     (\<exists>l d t. s = l @ [0x40] @ d @ [0x2E] @ t \<and> l \<noteq> [] \<and> d \<noteq> [] \<and> t \<noteq> [] \<and>
        (\<forall>c \<in> set (l @ d @ t). not_space_at c))"
    by (fastforce simp: is_at_def is_dot_def)
  finally show ?thesis by (simp add: not_space_at_def)
qed

text \<open>
  C4, as stated, fails: \<open>a@b@c.d\<close> has the shape non-whitespace \<open>@\<close> non-whitespace \<open>.\<close>
  non-whitespace (with \<open>a@b\<close> before the separating \<open>@\<close>), and the check rejects it,
  because the character class of the expression excludes \<open>@\<close> as well as white space.
\<close>

theorem emailOk_literal_shape_counterexample:
  "spec_email_shape (ustr ''a@b@c.d'') \<and> \<not> emailOk (ustr ''a@b@c.d'')"
proof
  have "\<forall>c \<in> set (ustr ''a@b'' @ ustr ''c'' @ ustr ''d''). \<not> is_space c"
    by (simp add: ustr_def is_space_def)
  then show "spec_email_shape (ustr ''a@b@c.d'')"
    unfolding spec_email_shape_def
    by (intro exI [of _ "ustr ''a@b''"] exI [of _ "ustr ''c''"] exI [of _ "ustr ''d''"])
       (simp add: ustr_def)
  show "\<not> emailOk (ustr ''a@b@c.d'')"
    by (simp add: ustr_def rx_defs)
qed

text \<open>
  C4, amended: the e-mail check accepts exactly the strings \<open>l@d.t\<close> whose three parts
  \<open>l\<close>, \<open>d\<close> and \<open>t\<close> are non-empty and hold neither white space nor \<open>@\<close>.
  It rejects \<open>foo\<close>, \<open>foo@bar\<close> and \<open>@bar.com\<close> and accepts \<open>a@b.co\<close>.
\<close>

theorem emailOk_shape:
  "(emailOk s \<longleftrightarrow>
     (\<exists>l d t. s = l @ [0x40] @ d @ [0x2E] @ t \<and> l \<noteq> [] \<and> d \<noteq> [] \<and> t \<noteq> [] \<and>
        (\<forall>c \<in> set (l @ d @ t). \<not> is_space c \<and> c \<noteq> 0x40)))
   \<and> \<not> emailOk (ustr ''foo'') \<and> \<not> emailOk (ustr ''foo@bar'') \<and> \<not> emailOk (ustr ''@bar.com'')
   \<and> emailOk (ustr ''a@b.co'')"
proof (intro conjI)
  show "emailOk s \<longleftrightarrow>
     (\<exists>l d t. s = l @ [0x40] @ d @ [0x2E] @ t \<and> l \<noteq> [] \<and> d \<noteq> [] \<and> t \<noteq> [] \<and>
        (\<forall>c \<in> set (l @ d @ t). \<not> is_space c \<and> c \<noteq> 0x40))"
    by (rule emailOk_iff)
  show "\<not> emailOk (ustr ''foo'')" by (simp add: ustr_def rx_defs)
  show "\<not> emailOk (ustr ''foo@bar'')" by (simp add: ustr_def rx_defs)
  show "\<not> emailOk (ustr ''@bar.com'')" by (simp add: ustr_def rx_defs)
  show "emailOk (ustr ''a@b.co'')" by (simp add: ustr_def rx_defs)
qed

theorem emailOk_shape_witness:
  "ustr ''ada@example.com'' = ustr ''ada'' @ [0x40] @ ustr ''example'' @ [0x2E] @ ustr ''com''
   \<and> list_all (\<lambda>c. \<not> is_space c \<and> c \<noteq> 0x40) (ustr ''ada'' @ ustr ''example'' @ ustr ''com'')
   \<and> emailOk (ustr ''ada@example.com'')"
proof -
  have split: "ustr ''ada@example.com''
      = ustr ''ada'' @ [0x40] @ ustr ''example'' @ [0x2E] @ ustr ''com''"
    by (simp add: ustr_def)
  have parts: "list_all (\<lambda>c. \<not> is_space c \<and> c \<noteq> 0x40)
      (ustr ''ada'' @ ustr ''example'' @ ustr ''com'')"
    by (simp add: ustr_def is_space_def)
  have nonempty: "ustr ''ada'' \<noteq> [] \<and> ustr ''example'' \<noteq> [] \<and> ustr ''com'' \<noteq> []"
    by (simp add: ustr_def)
  from parts
  have "\<forall>c \<in> set (ustr ''ada'' @ ustr ''example'' @ ustr ''com''). \<not> is_space c \<and> c \<noteq> 0x40"
    by (simp only: list_all_iff)
  with split nonempty
  have "\<exists>l d t. ustr ''ada@example.com'' = l @ [0x40] @ d @ [0x2E] @ t \<and> l \<noteq> [] \<and> d \<noteq> []
      \<and> t \<noteq> [] \<and> (\<forall>c \<in> set (l @ d @ t). \<not> is_space c \<and> c \<noteq> 0x40)"
    by blast
  with emailOk_shape [of "ustr ''ada@example.com''"] have "emailOk (ustr ''ada@example.com'')"
    by blast
  with split parts show ?thesis by blast
qed

section \<open>Facts about the concrete configurations\<close>

lemma srv_all_facts:
  "dbReady srv_all" "Contact srv_all = Some model_ok" "create model_ok c = Inr a_doc"
  "transporter srv_all = Some transport_ok" "transport_ok ml = Inr an_info"
  "construct model_ok r = Inr a_doc" "save model_ok d = Inr ()" "accepted_some an_info"
  by (simp_all add: srv_all_def model_ok_def transport_ok_def accepted_some_def an_info_def)

lemma srv_mail_down_facts:
  "dbReady srv_mail_down" "Contact srv_mail_down = Some model_ok"
  "transporter srv_mail_down = Some transport_failing"
  "transport_failing ml = Inl (Rejected (ustr ''connection refused''))"
  by (simp_all add: srv_mail_down_def transport_failing_def)

lemma root_mail_down_facts:
  "root_Contact root_mail_down = model_ok"
  "root_transporter root_mail_down = transport_failing"
  by (simp_all add: root_mail_down_def)

lemma srv_none_facts:
  "\<not> dbReady srv_none" "Contact srv_none = None" "transporter srv_none = None"
  by (simp_all add: srv_none_def)

lemma srv_db_down_facts:
  "dbReady srv_db_down" "Contact srv_db_down = Some model_failing"
  "create model_failing ada_cleaned = Inl (Rejected (ustr ''write rejected''))"
  by (simp_all add: srv_db_down_def model_failing_def)

lemma srv_db_only_facts:
  "dbReady srv_db_only" "Contact srv_db_only = Some model_ok" "transporter srv_db_only = None"
  by (simp_all add: srv_db_only_def)

lemma shadowed_throws:
  "\<not> truthy_opt (field (body (post shadowed)) ''company'')"
  "make_cleaned (post shadowed) = Inl TypeError"
  by (simp_all add: make_cleaned_def clean_field_def or_empty_def field_def truthy_opt_def
      ustr_def ex_defs)

lemma company_bot: "field (body (post bot)) ''company'' = Some (JStr (ustr ''Acme''))"
  by (simp add: field_def ustr_def ex_defs)

lemma no_name_fields:
  "\<not> truthy_opt (field (body (post no_name)) ''company'')"
  "clean_field (field (body (post no_name)) ''name'') = Inr []"
  "clean_field (field (body (post no_name)) ''email'') = Inr (ustr ''ada@example.com'')"
  "clean_field (field (body (post no_name)) ''message'') = Inr (ustr ''hello'')"
  "\<not> present (post no_name)"
  by (simp_all add: field_def truthy_opt_def clean_field_def or_empty_def trim_def present_def
      is_space_def ustr_def ex_defs)

section \<open>Notification failure (C1)\<close>

text \<open>
  The first server of \<open>part_001\<close> wraps the mail step in its own \<open>try\<close>: whatever
  \<open>sendContactEmail\<close> does, a stored submission is answered with success, and a failed
  delivery shows only as \<open>mailed: false\<close>.
\<close>

lemma mail_failure_is_soft_001a:
  assumes "present req" "Contact srv = Some m" "construct m (raw_of req w) = Inr doc"
    "save m doc = Inr ()"
    "transporter srv = None \<or> (\<exists>t e. transporter srv = Some t \<and> t (contact_email srv doc) = Inl e)"
  shows "fst (api_contact_001a srv req w) =
    res_json 200 [(''success'', JBool True), (''saved'', JBool True),
                  (''id'', JStr (doc_id doc)), (''mailed'', JBool False)]"
  using assms(5) saved_null_transporter_001a [OF assms(1-4)] saved_mail_throws_001a [OF assms(1-4)]
  by blast

text \<open>
  C1 (a failed notification never fails the request) does not hold for the handler of
  \<open>part_000\<close>: there \<open>await transporter.sendMail\<close> stands directly in the outer \<open>try\<close>,
  so for the valid submission \<open>{name: "Ada", email: "ada@example.com", message: "hello"}\<close>
  with a transport that rejects, the answer is the server error, while the first server of
  \<open>part_001\<close> answers the same request with success and \<open>mailed: false\<close>.
\<close>

theorem mail_failure_fails_request:
  "fst (api_contact_000 srv_mail_down (post ada) w0) =
     res_json 500 [(''success'', JBool False), (''error'', JStr (ustr ''Server error.''))]
   \<and> fst (api_contact_001a srv_mail_down (post ada) w0) =
     res_json 200 [(''success'', JBool True), (''saved'', JBool True),
                   (''id'', JStr (doc_id a_doc)), (''mailed'', JBool False)]"
proof
  show "fst (api_contact_000 srv_mail_down (post ada) w0) =
     res_json 500 [(''success'', JBool False), (''error'', JStr (ustr ''Server error.''))]"
    using stored_mail_throws_000 [OF valid_ada srv_mail_down_facts(1,2) srv_all_facts(3)
        srv_mail_down_facts(3,4), of w0]
    by simp
  show "fst (api_contact_001a srv_mail_down (post ada) w0) =
     res_json 200 [(''success'', JBool True), (''saved'', JBool True),
                   (''id'', JStr (doc_id a_doc)), (''mailed'', JBool False)]"
    by (rule saved_mail_throws_001a [OF present_ada srv_mail_down_facts(2) srv_all_facts(6,7)
        srv_mail_down_facts(3,4)])
qed

section \<open>The honeypot (C2)\<close>

text \<open>
  C2: for every payload whose field \<open>company\<close> is a non-empty string, the handlers of
  \<open>part_000\<close> and of the root server answer \<open>200 {success: true}\<close> at once and leave the
  world as it was: no validation, no storage write, no mail, whatever the other fields hold.
\<close>

theorem honeypot_short_circuit:
  assumes "field (body req) ''company'' = Some (JStr s)" and "s \<noteq> []"
  shows "api_contact_000 srv req w = (res_json 200 [(''success'', JBool True)], w)
       \<and> api_contact_001b rsrv req w = (res_json 200 [(''success'', JBool True)], w)"
proof -
  from assms have "truthy_opt (field (body req) ''company'')"
    by (simp add: truthy_opt_def)
  then show ?thesis by (simp add: honeypot_000 honeypot_001b)
qed

theorem honeypot_short_circuit_witness:
  "field (body (post bot)) ''company'' = Some (JStr (ustr ''Acme'')) \<and> ustr ''Acme'' \<noteq> []
   \<and> api_contact_000 srv_all (post bot) w0 = (res_json 200 [(''success'', JBool True)], w0)
   \<and> api_contact_001b root_all (post bot) w0 = (res_json 200 [(''success'', JBool True)], w0)"
proof -
  have ne: "ustr ''Acme'' \<noteq> []" by (simp add: ustr_def)
  from honeypot_short_circuit [OF company_bot ne, of srv_all w0 root_all] company_bot ne
  show ?thesis by simp
qed

text \<open>
  The first server of \<open>part_001\<close> has no honeypot: it stores and mails the same payload.
\<close>

lemma honeypot_absent_001a:
  "truthy_opt (field (body (post bot)) ''company'')
   \<and> status (fst (api_contact_001a srv_all (post bot) w0)) = 200
   \<and> db (snd (api_contact_001a srv_all (post bot) w0)) = [a_doc]
   \<and> sent (snd (api_contact_001a srv_all (post bot) w0)) = [contact_email srv_all a_doc]"
proof -
  have "present (post bot)"
    by (simp add: present_def field_def truthy_opt_def ustr_def ex_defs)
  then have "api_contact_001a srv_all (post bot) w0 =
     (res_json 200 [(''success'', JBool True), (''saved'', JBool True),
                    (''id'', JStr (doc_id a_doc)), (''mailed'', JBool True)],
      console_line ''[mail] sendMail accepted, id:''
        (w0\<lparr>db := [a_doc], sent := [contact_email srv_all a_doc],
            calls := [ConstructCall (raw_of (post bot) w0), SaveCall a_doc,
                      SendMailCall (contact_email srv_all a_doc)]\<rparr>))"
    using srv_all_facts by (simp add: resp_001a_defs w0_def)
  moreover have "truthy_opt (field (body (post bot)) ''company'')"
    by (simp add: company_bot truthy_opt_def ustr_def)
  ultimately show ?thesis by (simp add: res_json_def console_line_def)
qed

section \<open>Validation failures (C3)\<close>

text \<open>
  C3, as stated, fails in the handler of \<open>part_000\<close>, in two ways. The honeypot is tested
  before the validation, so a payload without \<open>name\<close> whose \<open>company\<close> is filled in is
  answered with \<open>200 {success: true}\<close>. And the three conversions run before the validation,
  so a payload without \<open>message\<close> whose \<open>name\<close> is \<open>{"toString": 1}\<close> is answered with the
  server error, the conversion of \<open>name\<close> having thrown.
\<close>

theorem blank_field_counterexample:
  "field (body (post bot_no_name)) ''name'' = None
   \<and> api_contact_000 srv_all (post bot_no_name) w0 = (res_json 200 [(''success'', JBool True)], w0)
   \<and> status (fst (api_contact_000 srv_all (post bot_no_name) w0)) \<noteq> 400
   \<and> \<not> truthy_opt (field (body (post shadowed_no_message)) ''company'')
   \<and> field (body (post shadowed_no_message)) ''message'' = None
   \<and> status (fst (api_contact_000 srv_all (post shadowed_no_message) w0)) = 500"
proof -
  have "truthy_opt (field (body (post bot_no_name)) ''company'')"
    by (simp add: field_def truthy_opt_def ustr_def ex_defs)
  then have "api_contact_000 srv_all (post bot_no_name) w0
      = (res_json 200 [(''success'', JBool True)], w0)"
    by (rule honeypot_000)
  moreover have "field (body (post bot_no_name)) ''name'' = None"
    by (simp add: field_def ustr_def ex_defs)
  moreover have nh: "\<not> truthy_opt (field (body (post shadowed_no_message)) ''company'')"
    and nm: "field (body (post shadowed_no_message)) ''message'' = None"
    and mc: "make_cleaned (post shadowed_no_message) = Inl TypeError"
    by (simp_all add: make_cleaned_def clean_field_def or_empty_def field_def truthy_opt_def
        ustr_def shadowed_no_message_def ex_defs)
  moreover from conversion_throws_000 [OF nh mc, of srv_all w0]
  have "status (fst (api_contact_000 srv_all (post shadowed_no_message) w0)) = 500"
    by (simp add: res_json_def)
  ultimately show ?thesis by (simp add: res_json_def)
qed

text \<open>
  A defect of the first server of \<open>part_001\<close>, left out of the amended statement below: it
  tests the raw fields without trimming them, although the handler of \<open>part_000\<close>, the root
  server and its own schema (\<open>trim: true, required: true\<close>) all trim. Whenever its check
  passes, \<open>new Contact\<close> is called and the answer is not a validation failure; a name of
  blanks only passes that check, while the handler of \<open>part_000\<close> rejects it.
\<close>

lemma present_reaches_storage_001a:
  assumes "present req" "Contact srv = Some m"
  shows "status (fst (api_contact_001a srv req w)) \<noteq> 400
       \<and> ConstructCall (raw_of req w) \<in> set (calls (snd (api_contact_001a srv req w)))"
proof (cases "construct m (raw_of req w)")
  case (Inl e)
  with assms show ?thesis
    by (simp add: resp_001a_defs res_json_def console_line_def)
next
  case doc: (Inr doc)
  show ?thesis
  proof (cases "save m doc")
    case (Inl e)
    with assms doc show ?thesis
      by (simp add: resp_001a_defs res_json_def console_line_def)
  next
    case sv: (Inr u)
    show ?thesis
    proof (cases "transporter srv")
      case None
      with assms doc sv show ?thesis
        by (simp add: resp_001a_defs res_json_def console_line_def)
    next
      case (Some t)
      with assms doc sv show ?thesis
        by (cases "t (contact_email srv doc)")
           (simp_all add: resp_001a_defs res_json_def console_line_def)
    qed
  qed
qed

lemma blank_name_is_stored_001a:
  "api_contact_000 srv_all (post blank_name) w0 =
     (res_json 400 [(''success'', JBool False), (''error'', JStr (ustr ''Invalid input.''))], w0)
   \<and> status (fst (api_contact_001a srv_all (post blank_name) w0)) \<noteq> 400
   \<and> ConstructCall (raw_of (post blank_name) w0)
       \<in> set (calls (snd (api_contact_001a srv_all (post blank_name) w0)))"
proof -
  have "\<not> truthy_opt (field (body (post blank_name)) ''company'')"
    and "make_cleaned (post blank_name) =
      Inr \<lparr>name = [], email = ustr ''ada@example.com'', message = ustr ''hello'',
           ip = Some (ustr ''203.0.113.7'')\<rparr>"
    by (simp_all add: make_cleaned_def clean_field_def field_def or_empty_def truthy_opt_def
        client_ip_def trim_def is_space_def ustr_def ex_defs)
  then have "api_contact_000 srv_all (post blank_name) w0 =
     (res_json 400 [(''success'', JBool False), (''error'', JStr (ustr ''Invalid input.''))], w0)"
    by (rule invalid_000) (simp add: invalid_input_def)
  moreover have "present (post blank_name)"
    by (simp add: present_def field_def truthy_opt_def ustr_def ex_defs)
  ultimately show ?thesis
    using present_reaches_storage_001a [OF _ srv_all_facts(2), of "post blank_name" w0] by simp
qed

text \<open>
  C3, amended: for every payload whose honeypot \<open>company\<close> is absent or falsy and whose
  \<open>name\<close>, \<open>email\<close> and \<open>message\<close> all convert to strings, if one of the three is missing
  or becomes empty after trimming, the handler of \<open>part_000\<close> answers
  \<open>400 {success: false, error: 'Invalid input.'}\<close> and leaves the world as it was: neither
  collaborator is invoked. The first server of \<open>part_001\<close> answers
  \<open>400 {success: false, error: 'Missing required fields'}\<close>, the world again as it was, for
  every payload of which one of the three fields is missing, null or the empty string.
\<close>

theorem blank_field_rejected:
  "(\<not> truthy_opt (field (body req) ''company'')
      \<and> clean_field (field (body req) ''name'') = Inr n
      \<and> clean_field (field (body req) ''email'') = Inr e
      \<and> clean_field (field (body req) ''message'') = Inr m
      \<and> (n = [] \<or> e = [] \<or> m = [])
    \<longrightarrow> api_contact_000 srv req w =
          (res_json 400 [(''success'', JBool False), (''error'', JStr (ustr ''Invalid input.''))], w))
   \<and> (field (body req) ''name'' \<in> {None, Some JNull, Some (JStr [])}
        \<or> field (body req) ''email'' \<in> {None, Some JNull, Some (JStr [])}
        \<or> field (body req) ''message'' \<in> {None, Some JNull, Some (JStr [])}
    \<longrightarrow> api_contact_001a srv req w =
          (res_json 400 [(''success'', JBool False),
                         (''error'', JStr (ustr ''Missing required fields''))], w))
   \<and> clean_field None = Inr [] \<and> clean_field (Some JNull) = Inr []
   \<and> clean_field (Some (JStr s)) = Inr (trim s)"
proof (intro conjI impI)
  assume a: "\<not> truthy_opt (field (body req) ''company'')
      \<and> clean_field (field (body req) ''name'') = Inr n
      \<and> clean_field (field (body req) ''email'') = Inr e
      \<and> clean_field (field (body req) ''message'') = Inr m
      \<and> (n = [] \<or> e = [] \<or> m = [])"
  then have mc: "make_cleaned req = Inr \<lparr>name = n, email = e, message = m, ip = client_ip req\<rparr>"
    by (simp add: make_cleaned_def)
  from a have "invalid_input \<lparr>name = n, email = e, message = m, ip = client_ip req\<rparr>"
    using emailOk_Nil by (auto simp: invalid_input_def)
  with a mc show "api_contact_000 srv req w =
      (res_json 400 [(''success'', JBool False), (''error'', JStr (ustr ''Invalid input.''))], w)"
    by (simp add: invalid_000)
next
  assume "field (body req) ''name'' \<in> {None, Some JNull, Some (JStr [])}
        \<or> field (body req) ''email'' \<in> {None, Some JNull, Some (JStr [])}
        \<or> field (body req) ''message'' \<in> {None, Some JNull, Some (JStr [])}"
  then have "\<not> present req"
    by (auto simp: present_def truthy_opt_def)
  then show "api_contact_001a srv req w =
      (res_json 400 [(''success'', JBool False),
                     (''error'', JStr (ustr ''Missing required fields''))], w)"
    by (rule missing_001a)
qed (simp_all add: clean_field_absent clean_field_string)

lemma no_name_raw: "field (body (post no_name)) ''name'' = Some (JStr [])"
  by (simp add: field_def ustr_def ex_defs)

theorem blank_field_rejected_witness:
  "\<not> truthy_opt (field (body (post no_name)) ''company'')
   \<and> clean_field (field (body (post no_name)) ''name'') = Inr []
   \<and> clean_field (field (body (post no_name)) ''email'') = Inr (ustr ''ada@example.com'')
   \<and> clean_field (field (body (post no_name)) ''message'') = Inr (ustr ''hello'')
   \<and> field (body (post no_name)) ''name'' = Some (JStr [])
   \<and> api_contact_000 srv_all (post no_name) w0 =
        (res_json 400 [(''success'', JBool False), (''error'', JStr (ustr ''Invalid input.''))], w0)
   \<and> api_contact_001a srv_all (post no_name) w0 =
        (res_json 400 [(''success'', JBool False),
                       (''error'', JStr (ustr ''Missing required fields''))], w0)"
  using blank_field_rejected [of "post no_name" "[]" "ustr ''ada@example.com''" "ustr ''hello''"
      srv_all w0] no_name_fields(1-4) no_name_raw
  by simp

section \<open>Storage not configured (C5)\<close>

text \<open>
  In the handler of \<open>part_000\<close> a valid submission without storage is answered with
  \<open>saved: false, id: null\<close> when mail is absent or delivers.
\<close>

lemma degraded_mode_000:
  assumes "valid_submission req c" "\<not> dbReady srv \<or> Contact srv = None"
    "transporter srv = None \<or> (\<exists>t i. transporter srv = Some t \<and> t (mail_000 srv c None) = Inr i)"
  shows "fst (api_contact_000 srv req w) =
    res_json 200 [(''success'', JBool True), (''saved'', JBool False), (''id'', JNull),
                  (''mailed'', JBool (transporter srv \<noteq> None))]"
  using assms(3)
proof
  assume n: "transporter srv = None"
  from no_storage_no_mail_000 [OF assms(1,2) n] n show ?thesis by simp
next
  assume "\<exists>t i. transporter srv = Some t \<and> t (mail_000 srv c None) = Inr i"
  then obtain t i where t: "transporter srv = Some t" and i: "t (mail_000 srv c None) = Inr i"
    by blast
  from no_storage_mail_sent_000 [OF assms(1,2) t i] t show ?thesis by simp
qed

text \<open>
  C5 (a valid submission without storage is answered with success, \<open>saved: false\<close> and
  \<open>id: null\<close>, never with a server error) does not hold for the first server of \<open>part_001\<close>:
  with \<open>Contact\<close> still \<open>null\<close>, \<open>new Contact(...)\<close> throws and the valid submission
  \<open>{name: "Ada", email: "ada@example.com", message: "hello"}\<close> is answered with the server
  error; the handler of \<open>part_000\<close>, which guards the write by \<open>dbReady && Contact\<close>,
  answers it as the claim says.
\<close>

theorem null_Contact_is_server_error:
  "fst (api_contact_001a srv_none (post ada) w0) =
     res_json 500 [(''success'', JBool False), (''error'', JStr (ustr ''Server error''))]
   \<and> api_contact_000 srv_none (post ada) w0 =
     (res_json 200 [(''success'', JBool True), (''saved'', JBool False),
                    (''id'', JNull), (''mailed'', JBool False)], w0)"
proof
  show "fst (api_contact_001a srv_none (post ada) w0) =
     res_json 500 [(''success'', JBool False), (''error'', JStr (ustr ''Server error''))]"
    using null_Contact_001a [OF present_ada srv_none_facts(2), of w0] by simp
  show "api_contact_000 srv_none (post ada) w0 =
     (res_json 200 [(''success'', JBool True), (''saved'', JBool False),
                    (''id'', JNull), (''mailed'', JBool False)], w0)"
    using no_storage_no_mail_000 [OF valid_ada _ srv_none_facts(3), of w0] srv_none_facts(1)
    by simp
qed

section \<open>Storage and mail succeed (C6)\<close>

text \<open>
  C6: for every valid submission with storage configured and the write succeeding, every
  success response of the handler of \<open>part_000\<close> is
  \<open>{success: true, saved: true, id: <the identifier of the document>, mailed: <boolean>}\<close>;
  without a transport it is returned with \<open>mailed: false\<close>, and with a transport whose
  \<open>sendMail\<close> resolves it is returned with \<open>mailed: true\<close>. The first server of \<open>part_001\<close>
  always answers such a submission with that shape, and with \<open>mailed: true\<close> when the
  transport resolves with a non-empty \<open>accepted\<close> list.
\<close>

theorem stored_and_mailed:
  "(valid_submission req c \<and> dbReady srv \<and> Contact srv = Some m \<and> create m c = Inr doc \<longrightarrow>
      (status (fst (api_contact_000 srv req w)) = 200 \<longrightarrow>
         fst (api_contact_000 srv req w) =
           res_json 200 [(''success'', JBool True), (''saved'', JBool True),
                         (''id'', JStr (doc_id doc)),
                         (''mailed'', JBool (transporter srv \<noteq> None))])
      \<and> (transporter srv = None \<longrightarrow>
         fst (api_contact_000 srv req w) =
           res_json 200 [(''success'', JBool True), (''saved'', JBool True),
                         (''id'', JStr (doc_id doc)), (''mailed'', JBool False)])
      \<and> (\<forall>t info. transporter srv = Some t
            \<and> t (mail_000 srv c (Some (doc_id doc))) = Inr info \<longrightarrow>
         fst (api_contact_000 srv req w) =
           res_json 200 [(''success'', JBool True), (''saved'', JBool True),
                         (''id'', JStr (doc_id doc)), (''mailed'', JBool True)]))
   \<and> (present req \<and> Contact srv = Some m \<and> construct m (raw_of req w) = Inr doc
        \<and> save m doc = Inr () \<longrightarrow>
      (\<exists>mailed. fst (api_contact_001a srv req w) =
           res_json 200 [(''success'', JBool True), (''saved'', JBool True),
                         (''id'', JStr (doc_id doc)), (''mailed'', JBool mailed)])
      \<and> (\<forall>t info. transporter srv = Some t \<and> t (contact_email srv doc) = Inr info
            \<and> accepted_some info \<longrightarrow>
         fst (api_contact_001a srv req w) =
           res_json 200 [(''success'', JBool True), (''saved'', JBool True),
                         (''id'', JStr (doc_id doc)), (''mailed'', JBool True)]))"
proof (intro conjI impI allI)
  assume a: "valid_submission req c \<and> dbReady srv \<and> Contact srv = Some m \<and> create m c = Inr doc"
  then have v: "valid_submission req c" and d: "dbReady srv" and cm: "Contact srv = Some m"
    and cr: "create m c = Inr doc" by simp_all
  {
    assume "transporter srv = None"
    from stored_no_mail_000 [OF v d cm cr this]
    show "fst (api_contact_000 srv req w) =
           res_json 200 [(''success'', JBool True), (''saved'', JBool True),
                         (''id'', JStr (doc_id doc)), (''mailed'', JBool False)]"
      by simp
  }
  {
    fix t info
    assume "transporter srv = Some t \<and> t (mail_000 srv c (Some (doc_id doc))) = Inr info"
    then have "transporter srv = Some t" "t (mail_000 srv c (Some (doc_id doc))) = Inr info"
      by simp_all
    from stored_mail_sent_000 [OF v d cm cr this]
    show "fst (api_contact_000 srv req w) =
           res_json 200 [(''success'', JBool True), (''saved'', JBool True),
                         (''id'', JStr (doc_id doc)), (''mailed'', JBool True)]"
      by simp
  }
  assume ok: "status (fst (api_contact_000 srv req w)) = 200"
  show "fst (api_contact_000 srv req w) =
           res_json 200 [(''success'', JBool True), (''saved'', JBool True),
                         (''id'', JStr (doc_id doc)),
                         (''mailed'', JBool (transporter srv \<noteq> None))]"
  proof (cases "transporter srv")
    case None
    from stored_no_mail_000 [OF v d cm cr None] None show ?thesis by simp
  next
    case (Some t)
    show ?thesis
    proof (cases "t (mail_000 srv c (Some (doc_id doc)))")
      case (Inl e)
      from stored_mail_throws_000 [OF v d cm cr Some Inl]
      have "status (fst (api_contact_000 srv req w)) = 500"
        by (simp add: res_json_def)
      with ok show ?thesis by simp
    next
      case (Inr info)
      from stored_mail_sent_000 [OF v d cm cr Some Inr] Some show ?thesis by simp
    qed
  qed
next
  assume b: "present req \<and> Contact srv = Some m \<and> construct m (raw_of req w) = Inr doc
        \<and> save m doc = Inr ()"
  then have p: "present req" and cm: "Contact srv = Some m"
    and co: "construct m (raw_of req w) = Inr doc" and sv: "save m doc = Inr ()" by simp_all
  show "\<exists>mailed. fst (api_contact_001a srv req w) =
           res_json 200 [(''success'', JBool True), (''saved'', JBool True),
                         (''id'', JStr (doc_id doc)), (''mailed'', JBool mailed)]"
    by (rule saved_always_success_001a [OF p cm co sv])
  fix t info
  assume "transporter srv = Some t \<and> t (contact_email srv doc) = Inr info \<and> accepted_some info"
  then have "transporter srv = Some t" "t (contact_email srv doc) = Inr info"
    and acc: "accepted_some info" by simp_all
  from saved_mail_sent_001a [OF p cm co sv this(1,2)] acc
  show "fst (api_contact_001a srv req w) =
           res_json 200 [(''success'', JBool True), (''saved'', JBool True),
                         (''id'', JStr (doc_id doc)), (''mailed'', JBool True)]"
    by simp
qed

theorem stored_and_mailed_witness:
  "valid_submission (post ada) ada_cleaned \<and> dbReady srv_all \<and> Contact srv_all = Some model_ok
   \<and> create model_ok ada_cleaned = Inr a_doc \<and> transporter srv_all = Some transport_ok
   \<and> transport_ok (mail_000 srv_all ada_cleaned (Some (doc_id a_doc))) = Inr an_info
   \<and> present (post ada) \<and> construct model_ok (raw_of (post ada) w0) = Inr a_doc
   \<and> save model_ok a_doc = Inr () \<and> transport_ok (contact_email srv_all a_doc) = Inr an_info
   \<and> accepted_some an_info
   \<and> fst (api_contact_000 srv_all (post ada) w0) =
        res_json 200 [(''success'', JBool True), (''saved'', JBool True),
                      (''id'', JStr (ustr ''65f1c0ffee0ddba11deadbee'')), (''mailed'', JBool True)]
   \<and> fst (api_contact_001a srv_all (post ada) w0) =
        res_json 200 [(''success'', JBool True), (''saved'', JBool True),
                      (''id'', JStr (ustr ''65f1c0ffee0ddba11deadbee'')), (''mailed'', JBool True)]
   \<and> dbReady srv_db_only \<and> Contact srv_db_only = Some model_ok \<and> transporter srv_db_only = None
   \<and> status (fst (api_contact_000 srv_db_only (post ada) w0)) = 200
   \<and> fst (api_contact_000 srv_db_only (post ada) w0) =
        res_json 200 [(''success'', JBool True), (''saved'', JBool True),
                      (''id'', JStr (ustr ''65f1c0ffee0ddba11deadbee'')), (''mailed'', JBool False)]"
proof -
  have id: "doc_id a_doc = ustr ''65f1c0ffee0ddba11deadbee''" by (simp add: a_doc_def)
  note th = stored_and_mailed [of "post ada" ada_cleaned srv_all model_ok a_doc w0]
  note th2 = stored_and_mailed [of "post ada" ada_cleaned srv_db_only model_ok a_doc w0]
  from th valid_ada srv_all_facts
  have "fst (api_contact_000 srv_all (post ada) w0) =
        res_json 200 [(''success'', JBool True), (''saved'', JBool True),
                      (''id'', JStr (doc_id a_doc)), (''mailed'', JBool True)]"
    by blast
  moreover from th present_ada srv_all_facts
  have "fst (api_contact_001a srv_all (post ada) w0) =
        res_json 200 [(''success'', JBool True), (''saved'', JBool True),
                      (''id'', JStr (doc_id a_doc)), (''mailed'', JBool True)]"
    by blast
  moreover from th2 valid_ada srv_db_only_facts srv_all_facts(3)
  have "fst (api_contact_000 srv_db_only (post ada) w0) =
        res_json 200 [(''success'', JBool True), (''saved'', JBool True),
                      (''id'', JStr (doc_id a_doc)), (''mailed'', JBool False)]"
    by blast
  ultimately show ?thesis
    using valid_ada present_ada srv_all_facts srv_db_only_facts by (simp add: id res_json_def)
qed

section \<open>The storage write fails (C7)\<close>

text \<open>
  C7: for every valid submission with storage configured, if \<open>Contact.create\<close> throws or
  rejects, the handler of \<open>part_000\<close> answers \<open>500 {success: false, error: 'Server error.'}\<close>;
  nothing is stored, no mail is sent and the transport is not called.
\<close>

theorem write_failure_is_server_error:
  assumes "valid_submission req c" and "dbReady srv" and "Contact srv = Some m"
    and "create m c = Inl err"
  shows "fst (api_contact_000 srv req w) =
           res_json 500 [(''success'', JBool False), (''error'', JStr (ustr ''Server error.''))]
       \<and> db (snd (api_contact_000 srv req w)) = db w
       \<and> sent (snd (api_contact_000 srv req w)) = sent w
       \<and> calls (snd (api_contact_000 srv req w)) = calls w @ [CreateCall c]"
  using write_fails_000 [OF assms] by (simp add: console_line_def)

theorem write_failure_is_server_error_witness:
  "valid_submission (post ada) ada_cleaned \<and> dbReady srv_db_down
   \<and> Contact srv_db_down = Some model_failing
   \<and> create model_failing ada_cleaned = Inl (Rejected (ustr ''write rejected''))
   \<and> fst (api_contact_000 srv_db_down (post ada) w0) =
        res_json 500 [(''success'', JBool False), (''error'', JStr (ustr ''Server error.''))]
   \<and> db (snd (api_contact_000 srv_db_down (post ada) w0)) = []"
  using write_failure_is_server_error [OF valid_ada srv_db_down_facts, of w0]
    valid_ada srv_db_down_facts
  by (simp add: w0_def)

section \<open>The health endpoint (C8)\<close>

text \<open>
  After the start of \<open>part_000\<close> the storage guard of the contact handler is passed exactly
  when the connection is open, and the transport is set exactly when its password is.
\<close>

lemma start_000_storage:
  "(dbReady (start_000 e t conn) \<and> Contact (start_000 e t conn) \<noteq> None)
     \<longleftrightarrow> readyState (start_000 e t conn) = 1"
  "dbReady (start_000 e t conn) \<longleftrightarrow> readyState (start_000 e t conn) = 1"
  "readyState (start_000 e t conn) = 1 \<longleftrightarrow> env_set e ''MONGO_URI'' \<and> (\<exists>m. conn = Inr m)"
  "transporter (start_000 e t conn) \<noteq> None \<longleftrightarrow> env_set e ''SENDGRID_SMTP_PASS''"
  by (auto simp: start_000_def Let_def split: sum.splits)

text \<open>
  On a fresh trace, a valid submission reaches \<open>Contact.create\<close> exactly when the guard
  \<open>dbReady && Contact\<close> is passed.
\<close>

lemma create_call_iff:
  assumes v: "valid_submission req c" and fresh: "calls w = []"
  shows "CreateCall c \<in> set (calls (snd (api_contact_000 srv req w)))
     \<longleftrightarrow> dbReady srv \<and> Contact srv \<noteq> None"
proof (cases "dbReady srv \<and> Contact srv \<noteq> None")
  case True
  then obtain m where d: "dbReady srv" and cm: "Contact srv = Some m" by auto
  show ?thesis
  proof (cases "create m c")
    case (Inl e)
    from write_fails_000 [OF v d cm Inl, of w] True show ?thesis
      by (simp add: console_line_def)
  next
    case cr: (Inr doc)
    show ?thesis
    proof (cases "transporter srv")
      case None
      from stored_no_mail_000 [OF v d cm cr None, of w] True show ?thesis by simp
    next
      case (Some t)
      show ?thesis
      proof (cases "t (mail_000 srv c (Some (doc_id doc)))")
        case (Inl e)
        from stored_mail_throws_000 [OF v d cm cr Some Inl, of w] True show ?thesis
          by (simp add: console_line_def)
      next
        case (Inr info)
        from stored_mail_sent_000 [OF v d cm cr Some Inr, of w] True show ?thesis by simp
      qed
    qed
  qed
next
  case False
  then have off: "\<not> dbReady srv \<or> Contact srv = None" by simp
  show ?thesis
  proof (cases "transporter srv")
    case None
    from no_storage_no_mail_000 [OF v off None, of w] False fresh show ?thesis by simp
  next
    case (Some t)
    show ?thesis
    proof (cases "t (mail_000 srv c None)")
      case (Inl e)
      from no_storage_mail_throws_000 [OF v off Some Inl, of w] False fresh show ?thesis
        by (simp add: console_line_def)
    next
      case (Inr info)
      from no_storage_mail_sent_000 [OF v off Some Inr, of w] False fresh show ?thesis by simp
    qed
  qed
qed

lemma health_000_fields:
  "field (Some (payload (health_000 srv))) ''db'' = Some (JBool (dbReady srv))"
  "field (Some (payload (health_000 srv))) ''mail'' = Some (JBool (transporter srv \<noteq> None))"
  by (simp_all add: health_000_def res_json_def field_def ustr_def)

lemma env_all_facts:
  "env_set env_all ''MONGO_URI''" "env_set env_all ''SENDGRID_SMTP_PASS''"
  "start_000 env_all transport_ok (Inr model_ok) = srv_all\<lparr>env := env_all\<rparr>"
  by (simp_all add: env_set_def env_all_def start_000_def Let_def srv_all_def ustr_def)

text \<open>
  A defect of \<open>part_000\<close>, left out of the amended statement below: \<open>dbReady\<close> is set once
  and never updated. When the connection opened at the start is lost later, the health
  endpoint of \<open>part_000\<close> still reports \<open>db: true\<close>, while that of the first server of
  \<open>part_001\<close>, which reads \<open>mongoose.connection.readyState\<close> at each request, reports
  \<open>db: false\<close>.
\<close>

lemma health_000_stale_flag:
  "field (Some (payload (health_000
       ((start_000 env_all transport_ok (Inr model_ok))\<lparr>readyState := 0\<rparr>)))) ''db''
     = Some (JBool True)
   \<and> field (Some (payload (health_001a
       ((start_000 env_all transport_ok (Inr model_ok))\<lparr>readyState := 0\<rparr>)))) ''db''
     = Some (JBool False)"
  by (simp add: env_all_facts health_000_def health_001a_def res_json_def field_def ustr_def
      srv_all_def)

text \<open>
  C8, as stated, fails: the health endpoint of the root server answers \<open>{ok: true}\<close> and
  nothing else; its response has neither a \<open>db\<close> nor a \<open>mail\<close> member.
\<close>

theorem health_root_counterexample:
  "health_001b = res_json 200 [(''ok'', JBool True)]
   \<and> field (Some (payload health_001b)) ''db'' = None
   \<and> field (Some (payload health_001b)) ''mail'' = None"
  by (simp add: health_001b_def res_json_def field_def ustr_def)

text \<open>
  C8, amended: the health endpoint of \<open>part_000\<close> always returns
  \<open>{ok: true, db: boolean, mail: boolean}\<close>. Its \<open>mail\<close> member tells whether the mail
  transport is configured (\<open>transporter\<close> is set, which the start does exactly when
  \<open>SENDGRID_SMTP_PASS\<close> is). In the state the start leaves, its \<open>db\<close> member tells whether
  the storage collaborator is available: it is true exactly when the connection is open,
  and exactly when a valid submission reaches \<open>Contact.create\<close>. The health endpoint of the
  root server returns \<open>{ok: true}\<close> only.
\<close>

theorem health_reports:
  "(\<exists>d m. health_000 srv =
       res_json 200 [(''ok'', JBool True), (''db'', JBool d), (''mail'', JBool m)])
   \<and> field (Some (payload (health_000 srv))) ''mail'' = Some (JBool (transporter srv \<noteq> None))
   \<and> field (Some (payload (health_000 (start_000 e t conn)))) ''mail''
        = Some (JBool (env_set e ''SENDGRID_SMTP_PASS''))
   \<and> field (Some (payload (health_000 (start_000 e t conn)))) ''db''
        = Some (JBool (readyState (start_000 e t conn) = 1))
   \<and> (valid_submission req c \<and> calls w = [] \<longrightarrow>
        (field (Some (payload (health_000 (start_000 e t conn)))) ''db'' = Some (JBool True)
           \<longleftrightarrow> CreateCall c \<in> set (calls (snd (api_contact_000 (start_000 e t conn) req w)))))
   \<and> health_001b = res_json 200 [(''ok'', JBool True)]"
proof (intro conjI impI)
  show "\<exists>d m. health_000 srv =
       res_json 200 [(''ok'', JBool True), (''db'', JBool d), (''mail'', JBool m)]"
    unfolding health_000_def by blast
  show "field (Some (payload (health_000 srv))) ''mail'' = Some (JBool (transporter srv \<noteq> None))"
    by (rule health_000_fields)
  show "field (Some (payload (health_000 (start_000 e t conn)))) ''mail''
        = Some (JBool (env_set e ''SENDGRID_SMTP_PASS''))"
    by (simp only: health_000_fields start_000_storage(4))
  show "field (Some (payload (health_000 (start_000 e t conn)))) ''db''
        = Some (JBool (readyState (start_000 e t conn) = 1))"
    by (simp only: health_000_fields start_000_storage(2))
  show "health_001b = res_json 200 [(''ok'', JBool True)]"
    by (simp add: health_001b_def)
next
  assume a: "valid_submission req c \<and> calls w = []"
  then have "CreateCall c \<in> set (calls (snd (api_contact_000 (start_000 e t conn) req w)))
     \<longleftrightarrow> dbReady (start_000 e t conn) \<and> Contact (start_000 e t conn) \<noteq> None"
    by (simp add: create_call_iff)
  also have "\<dots> \<longleftrightarrow> dbReady (start_000 e t conn)"
    using start_000_storage(1,2) [of e t conn] by blast
  finally show "field (Some (payload (health_000 (start_000 e t conn)))) ''db'' = Some (JBool True)
           \<longleftrightarrow> CreateCall c \<in> set (calls (snd (api_contact_000 (start_000 e t conn) req w)))"
    by (simp add: health_000_fields)
qed

theorem health_reports_witness:
  "valid_submission (post ada) ada_cleaned \<and> calls w0 = []
   \<and> readyState (start_000 env_all transport_ok (Inr model_ok)) = 1
   \<and> health_000 (start_000 env_all transport_ok (Inr model_ok)) =
        res_json 200 [(''ok'', JBool True), (''db'', JBool True), (''mail'', JBool True)]
   \<and> CreateCall ada_cleaned
        \<in> set (calls (snd (api_contact_000 (start_000 env_all transport_ok (Inr model_ok))
                              (post ada) w0)))
   \<and> readyState (start_000 no_env transport_ok (Inr model_ok)) = 0
   \<and> health_000 (start_000 no_env transport_ok (Inr model_ok)) =
        res_json 200 [(''ok'', JBool True), (''db'', JBool False), (''mail'', JBool False)]
   \<and> CreateCall ada_cleaned
        \<notin> set (calls (snd (api_contact_000 (start_000 no_env transport_ok (Inr model_ok))
                              (post ada) w0)))"
proof -
  have fresh: "calls w0 = []" by (simp add: w0_def)
  have r1: "readyState (start_000 env_all transport_ok (Inr model_ok)) = 1"
    by (simp add: env_all_facts srv_all_def)
  have r0: "readyState (start_000 no_env transport_ok (Inr model_ok)) = 0"
    by (simp add: start_000_def env_set_def no_env_def)
  have h1: "health_000 (start_000 env_all transport_ok (Inr model_ok)) =
        res_json 200 [(''ok'', JBool True), (''db'', JBool True), (''mail'', JBool True)]"
    by (simp add: env_all_facts health_000_def srv_all_def)
  have h0: "health_000 (start_000 no_env transport_ok (Inr model_ok)) =
        res_json 200 [(''ok'', JBool True), (''db'', JBool False), (''mail'', JBool False)]"
    by (simp add: start_000_def env_set_def no_env_def health_000_def)
  note t1 = health_reports [of srv_all env_all transport_ok "Inr model_ok" "post ada" ada_cleaned w0]
  note t0 = health_reports [of srv_all no_env transport_ok "Inr model_ok" "post ada" ada_cleaned w0]
  from t1 r1
  have d1: "field (Some (payload (health_000 (start_000 env_all transport_ok (Inr model_ok))))) ''db''
      = Some (JBool True)"
    by simp
  from t0 r0
  have d0: "field (Some (payload (health_000 (start_000 no_env transport_ok (Inr model_ok))))) ''db''
      \<noteq> Some (JBool True)"
    by simp
  from t1 valid_ada fresh d1
  have c1: "CreateCall ada_cleaned
        \<in> set (calls (snd (api_contact_000 (start_000 env_all transport_ok (Inr model_ok))
                              (post ada) w0)))"
    by blast
  from t0 valid_ada fresh d0
  have c0: "CreateCall ada_cleaned
        \<notin> set (calls (snd (api_contact_000 (start_000 no_env transport_ok (Inr model_ok))
                              (post ada) w0)))"
    by blast
  from valid_ada fresh r1 r0 h1 h0 c1 c0 show ?thesis by blast
qed

section \<open>Normalisation (C9)\<close>

text \<open>
  C9, as stated, fails: normalisation is not total. For the JSON payload
  \<open>{"name": {"toString": 1}, "email": "a@b.co", "message": "hello"}\<close> the conversion
  \<open>String(name || '')\<close> throws a \<open>TypeError\<close>, no \<open>cleaned\<close> object is built, and the
  handlers of \<open>part_000\<close> and of the root server answer with the server error.
\<close>

theorem normalisation_throws_counterexample:
  "make_cleaned (post shadowed) = Inl TypeError
   \<and> fst (api_contact_000 srv_all (post shadowed) w0) =
       res_json 500 [(''success'', JBool False), (''error'', JStr (ustr ''Server error.''))]
   \<and> fst (api_contact_001b root_all (post shadowed) w0) =
       res_json 500 [(''success'', JBool False), (''error'', JStr (ustr ''Server error.''))]"
proof -
  have nh: "\<not> truthy_opt (field (body (post shadowed)) ''company'')"
    by (simp add: field_def truthy_opt_def ustr_def ex_defs)
  have mc: "make_cleaned (post shadowed) = Inl TypeError"
    by (simp add: make_cleaned_def clean_field_def or_empty_def field_def ustr_def ex_defs)
  from conversion_throws_000 [OF nh mc, of srv_all w0]
    conversion_throws_001b [OF nh mc, of root_all w0] mc
  show ?thesis by simp
qed

text \<open>
  C9, amended: \<open>String\<close> converts a JSON value without throwing exactly when it reaches no
  object with an own member \<open>toString\<close>; on payloads whose \<open>name\<close>, \<open>email\<close> and \<open>message\<close>
  are such values or missing, normalisation yields the three trimmed strings. A missing
  or null field becomes the empty string, a string its trimmed self, an integer below
  \<open>2^53\<close> in magnitude its decimal digits (zero, being falsy, the empty string), any other
  number the trimmed text \<open>String\<close> gives it, so a payload with numbers for \<open>name\<close> and
  \<open>message\<close> passes the validation. When the conversion throws, the exception stays inside
  the handler's \<open>try\<close>: the answer is the server error and no collaborator is called.
\<close>

theorem normalisation_total:
  "((\<exists>s. js_String v = Inr s) \<longleftrightarrow> stringifiable v)
   \<and> (stringifiable_opt (field (body req) ''name'') \<and> stringifiable_opt (field (body req) ''email'')
        \<and> stringifiable_opt (field (body req) ''message'') \<longrightarrow>
      (\<exists>n e m. clean_field (field (body req) ''name'') = Inr n
         \<and> clean_field (field (body req) ''email'') = Inr e
         \<and> clean_field (field (body req) ''message'') = Inr m
         \<and> make_cleaned req = Inr \<lparr>name = n, email = e, message = m, ip = client_ip req\<rparr>))
   \<and> (\<not> truthy_opt (field (body req) ''company'') \<and> make_cleaned req = Inl err \<longrightarrow>
        api_contact_000 srv req w =
          (res_json 500 [(''success'', JBool False), (''error'', JStr (ustr ''Server error.''))],
           console_line ''[api/contact] error:'' w)
        \<and> api_contact_001b rsrv req w =
          (res_json 500 [(''success'', JBool False), (''error'', JStr (ustr ''Server error.''))],
           console_line ''[api/contact] error:'' w))
   \<and> clean_field None = Inr [] \<and> clean_field (Some JNull) = Inr []
   \<and> clean_field (Some (JStr s)) = Inr (trim s)
   \<and> (\<bar>k\<bar> < 2 ^ 53 \<longrightarrow>
        clean_field (Some (JNum k)) = Inr (if k = 0 then [] else number_to_string k))
   \<and> clean_field (Some (JReal t)) = Inr (trim t)
   \<and> valid_submission (post numbers) numbers_cleaned"
proof (intro conjI impI)
  show "(\<exists>s. js_String v = Inr s) \<longleftrightarrow> stringifiable v"
    by (rule js_String_join_total(1))
next
  assume a: "stringifiable_opt (field (body req) ''name'')
      \<and> stringifiable_opt (field (body req) ''email'')
      \<and> stringifiable_opt (field (body req) ''message'')"
  obtain n where n: "clean_field (field (body req) ''name'') = Inr n"
    using clean_field_total a by blast
  obtain e where e: "clean_field (field (body req) ''email'') = Inr e"
    using clean_field_total a by blast
  obtain m where m: "clean_field (field (body req) ''message'') = Inr m"
    using clean_field_total a by blast
  from n e m
  have "make_cleaned req = Inr \<lparr>name = n, email = e, message = m, ip = client_ip req\<rparr>"
    by (simp add: make_cleaned_def)
  with n e m show "\<exists>n e m. clean_field (field (body req) ''name'') = Inr n
         \<and> clean_field (field (body req) ''email'') = Inr e
         \<and> clean_field (field (body req) ''message'') = Inr m
         \<and> make_cleaned req = Inr \<lparr>name = n, email = e, message = m, ip = client_ip req\<rparr>"
    by blast
next
  assume "\<not> truthy_opt (field (body req) ''company'') \<and> make_cleaned req = Inl err"
  then show "api_contact_000 srv req w =
          (res_json 500 [(''success'', JBool False), (''error'', JStr (ustr ''Server error.''))],
           console_line ''[api/contact] error:'' w)"
    and "api_contact_001b rsrv req w =
          (res_json 500 [(''success'', JBool False), (''error'', JStr (ustr ''Server error.''))],
           console_line ''[api/contact] error:'' w)"
    by (simp_all add: conversion_throws_000 conversion_throws_001b)
next
  show "valid_submission (post numbers) numbers_cleaned" by (rule valid_numbers)
qed (simp_all add: clean_field_absent clean_field_string clean_field_number clean_field_real)

theorem normalisation_total_witness:
  "stringifiable_opt (field (body (post numbers)) ''name'')
   \<and> stringifiable_opt (field (body (post numbers)) ''email'')
   \<and> stringifiable_opt (field (body (post numbers)) ''message'')
   \<and> (\<exists>c. make_cleaned (post numbers) = Inr c)
   \<and> make_cleaned (post numbers) = Inr numbers_cleaned
   \<and> \<bar>42 :: int\<bar> < 2 ^ 53
   \<and> clean_field (Some (JNum 42)) = Inr (ustr ''42'')
   \<and> clean_field (Some (JReal (ustr ''1.5''))) = Inr (ustr ''1.5'')
   \<and> api_contact_000 srv_none (post numbers) w0 =
       (res_json 200 [(''success'', JBool True), (''saved'', JBool False),
                      (''id'', JNull), (''mailed'', JBool False)], w0)
   \<and> \<not> truthy_opt (field (body (post shadowed)) ''company'')
   \<and> make_cleaned (post shadowed) = Inl TypeError
   \<and> status (fst (api_contact_000 srv_all (post shadowed) w0)) = 500
   \<and> db (snd (api_contact_000 srv_all (post shadowed) w0)) = []"
proof -
  have s: "stringifiable_opt (field (body (post numbers)) ''name'')"
    "stringifiable_opt (field (body (post numbers)) ''email'')"
    "stringifiable_opt (field (body (post numbers)) ''message'')"
    by (simp_all add: stringifiable_opt_def field_def ustr_def ex_defs)
  note th = normalisation_total [of "JNum 42" "post numbers" TypeError srv_none w0 root_all "[]" 42
      "ustr ''1.5''"]
  note th2 = normalisation_total [of "JNum 42" "post shadowed" TypeError srv_all w0 root_all "[]" 42]
  from th s have ex: "\<exists>c. make_cleaned (post numbers) = Inr c" by blast
  from th have v: "valid_submission (post numbers) numbers_cleaned" by blast
  then have mc: "make_cleaned (post numbers) = Inr numbers_cleaned"
    by (simp add: valid_submission_def)
  from th have "clean_field (Some (JNum 42)) = Inr (number_to_string 42)" by simp
  then have n42: "clean_field (Some (JNum 42)) = Inr (ustr ''42'')"
    by (simp add: number_to_string_def digits.simps ustr_def)
  from th have "clean_field (Some (JReal (ustr ''1.5''))) = Inr (trim (ustr ''1.5''))" by blast
  then have r15: "clean_field (Some (JReal (ustr ''1.5''))) = Inr (ustr ''1.5'')"
    by (simp add: trim_def is_space_def ustr_def)
  from no_storage_no_mail_000 [OF v _ srv_none_facts(3), of w0] srv_none_facts(1)
  have ok: "api_contact_000 srv_none (post numbers) w0 =
       (res_json 200 [(''success'', JBool True), (''saved'', JBool False),
                      (''id'', JNull), (''mailed'', JBool False)], w0)"
    by simp
  from th2 shadowed_throws
  have "api_contact_000 srv_all (post shadowed) w0 =
          (res_json 500 [(''success'', JBool False), (''error'', JStr (ustr ''Server error.''))],
           console_line ''[api/contact] error:'' w0)"
    by blast
  then have "status (fst (api_contact_000 srv_all (post shadowed) w0)) = 500"
    "db (snd (api_contact_000 srv_all (post shadowed) w0)) = []"
    by (simp_all add: res_json_def console_line_def w0_def)
  with s ex mc n42 r15 ok shadowed_throws show ?thesis by simp
qed

section \<open>No rollback (C10)\<close>

text \<open>
  C10: in the handlers of \<open>part_000\<close> and of the root server, if the storage write of a
  valid submission succeeds and the mail send that follows throws, the caller receives the
  server error and the created document stays in the store.
\<close>

theorem mail_throw_keeps_record:
  "(valid_submission req c \<and> dbReady srv \<and> Contact srv = Some m \<and> create m c = Inr doc
      \<and> transporter srv = Some t \<and> t (mail_000 srv c (Some (doc_id doc))) = Inl err \<longrightarrow>
      fst (api_contact_000 srv req w) =
        res_json 500 [(''success'', JBool False), (''error'', JStr (ustr ''Server error.''))]
      \<and> db (snd (api_contact_000 srv req w)) = db w @ [doc])
   \<and> (valid_submission req c \<and> create (root_Contact r) c = Inr doc
      \<and> root_transporter r (mail_001b r c doc) = Inl err \<longrightarrow>
      fst (api_contact_001b r req w) =
        res_json 500 [(''success'', JBool False), (''error'', JStr (ustr ''Server error.''))]
      \<and> db (snd (api_contact_001b r req w)) = db w @ [doc])"
proof (intro conjI impI)
  assume "valid_submission req c \<and> dbReady srv \<and> Contact srv = Some m \<and> create m c = Inr doc
      \<and> transporter srv = Some t \<and> t (mail_000 srv c (Some (doc_id doc))) = Inl err"
  then have "valid_submission req c" "dbReady srv" "Contact srv = Some m" "create m c = Inr doc"
    "transporter srv = Some t" "t (mail_000 srv c (Some (doc_id doc))) = Inl err"
    by simp_all
  note r = stored_mail_throws_000 [OF this, of w]
  from r show "fst (api_contact_000 srv req w) =
        res_json 500 [(''success'', JBool False), (''error'', JStr (ustr ''Server error.''))]"
    by simp
  from r show "db (snd (api_contact_000 srv req w)) = db w @ [doc]"
    by (simp add: console_line_def)
next
  assume "valid_submission req c \<and> create (root_Contact r) c = Inr doc
      \<and> root_transporter r (mail_001b r c doc) = Inl err"
  then have "valid_submission req c" "create (root_Contact r) c = Inr doc"
    "root_transporter r (mail_001b r c doc) = Inl err"
    by simp_all
  note r = stored_mail_throws_001b [OF this, of w]
  from r show "fst (api_contact_001b r req w) =
        res_json 500 [(''success'', JBool False), (''error'', JStr (ustr ''Server error.''))]"
    by simp
  from r show "db (snd (api_contact_001b r req w)) = db w @ [doc]"
    by (simp add: console_line_def)
qed

theorem mail_throw_keeps_record_witness:
  "valid_submission (post ada) ada_cleaned \<and> dbReady srv_mail_down
   \<and> Contact srv_mail_down = Some model_ok \<and> create model_ok ada_cleaned = Inr a_doc
   \<and> transporter srv_mail_down = Some transport_failing
   \<and> transport_failing (mail_000 srv_mail_down ada_cleaned (Some (doc_id a_doc)))
       = Inl (Rejected (ustr ''connection refused''))
   \<and> create (root_Contact root_mail_down) ada_cleaned = Inr a_doc
   \<and> root_transporter root_mail_down (mail_001b root_mail_down ada_cleaned a_doc)
       = Inl (Rejected (ustr ''connection refused''))
   \<and> status (fst (api_contact_000 srv_mail_down (post ada) w0)) = 500
   \<and> db (snd (api_contact_000 srv_mail_down (post ada) w0)) = [a_doc]
   \<and> status (fst (api_contact_001b root_mail_down (post ada) w0)) = 500
   \<and> db (snd (api_contact_001b root_mail_down (post ada) w0)) = [a_doc]"
  using mail_throw_keeps_record [of "post ada" ada_cleaned srv_mail_down model_ok a_doc
      transport_failing "Rejected (ustr ''connection refused'')" w0 root_mail_down]
    valid_ada srv_mail_down_facts root_mail_down_facts srv_all_facts(3)
  by (simp add: w0_def res_json_def)

end
